theory Spec2Isabelle
  imports Complex_Main "HOL-Library.Log_Nat"
begin

section \<open>JavaScript values and the document store\<close>

text \<open>
  Document identifiers (ObjectId) and timestamps are natural numbers. Status fields stay
  strings, as in the schemas. Money amounts are whole numbers.

  A number field of a Student's payment plan may be missing; the code guards such reads with
  \<^verbatim>\<open>|| 0\<close>. \<open>None\<close> stands for a value that is \<^verbatim>\<open>undefined\<close> or \<^verbatim>\<open>NaN\<close>: both are falsy and
  both make every sum and difference \<^verbatim>\<open>NaN\<close>.
\<close>

type_synonym oid = nat
type_synonym date = nat
type_synonym jsnum = "int option"

definition or0 :: "jsnum \<Rightarrow> int" where
  "or0 v = (case v of None \<Rightarrow> 0 | Some n \<Rightarrow> n)"

definition js_add :: "jsnum \<Rightarrow> jsnum \<Rightarrow> jsnum" where
  "js_add a b = (case a of None \<Rightarrow> None | Some x \<Rightarrow> (case b of None \<Rightarrow> None | Some y \<Rightarrow> Some (x + y)))"

definition js_sub :: "jsnum \<Rightarrow> jsnum \<Rightarrow> jsnum" where
  "js_sub a b = (case a of None \<Rightarrow> None | Some x \<Rightarrow> (case b of None \<Rightarrow> None | Some y \<Rightarrow> Some (x - y)))"

text \<open>\<^verbatim>\<open>Array.prototype.findIndex\<close>; \<open>None\<close> is the source's \<open>-1\<close>.\<close>

fun find_index :: "('a \<Rightarrow> bool) \<Rightarrow> 'a list \<Rightarrow> nat option" where
  "find_index P [] = None"
| "find_index P (x # xs) = (if P x then Some 0 else map_option Suc (find_index P xs))"

text \<open>An update of the first document that matches, as \<^verbatim>\<open>findByIdAndUpdate\<close> does.\<close>

fun update_first :: "('a \<Rightarrow> bool) \<Rightarrow> ('a \<Rightarrow> 'a) \<Rightarrow> 'a list \<Rightarrow> 'a list" where
  "update_first P f [] = []"
| "update_first P f (x # xs) = (if P x then f x # xs else x # update_first P f xs)"

text \<open>
  The write of \<^verbatim>\<open>doc.save()\<close>: the stored copy with the same identifier is replaced; a new
  document is appended.
\<close>

definition put_doc :: "('a \<Rightarrow> oid) \<Rightarrow> 'a \<Rightarrow> 'a list \<Rightarrow> 'a list" where
  "put_doc key d ds =
     (if find (\<lambda>x. key x = key d) ds = None then ds @ [d]
      else update_first (\<lambda>x. key x = key d) (\<lambda>_. d) ds)"

text \<open>\<^verbatim>\<open>arr.splice(i, 1)\<close>.\<close>

definition splice1 :: "nat \<Rightarrow> 'a list \<Rightarrow> 'a list" where
  "splice1 i xs = take i xs @ drop (Suc i) xs"

subsection \<open>Schema validation\<close>

text \<open>
  \<^verbatim>\<open>save()\<close> and \<^verbatim>\<open>create()\<close> validate the document first and run the \<^verbatim>\<open>pre('save')\<close> hooks only
  when the validation has passed. So an identifier that a schema declares \<^verbatim>\<open>required\<close> and that
  its \<^verbatim>\<open>pre('save')\<close> hook would take from the counter must already be in the data, and what a
  \<^verbatim>\<open>pre('save')\<close> hook computes is stored without being validated. A write that fails rejects
  with a validation error, which carries the texts of the failed validators (listed here in the
  order of the schema), or with the duplicate key error (code 11000) of a unique index.
\<close>

datatype store_error = ValidationError "string list" | DuplicateKey

text \<open>Numbers as the texts of the validators print them.\<close>

definition digit_char :: "nat \<Rightarrow> char" where
  "digit_char n = ''0123456789'' ! n"

function string_of_nat :: "nat \<Rightarrow> string" where
  "string_of_nat n =
     (if n < 10 then [digit_char n] else string_of_nat (n div 10) @ [digit_char (n mod 10)])"
  by pat_completeness auto
termination
  by (relation "measure id") auto

declare string_of_nat.simps [simp del]

definition string_of_int :: "int \<Rightarrow> string" where
  "string_of_int i = (if i < 0 then ''-'' @ string_of_nat (nat (- i)) else string_of_nat (nat i))"

text \<open>The texts of the validators \<^verbatim>\<open>required\<close>, \<^verbatim>\<open>min\<close>, \<^verbatim>\<open>max\<close> and \<^verbatim>\<open>enum\<close>.\<close>

definition required_message :: "string \<Rightarrow> string" where
  "required_message path = ''Path `'' @ path @ ''` is required.''"

definition check_min :: "string \<Rightarrow> int \<Rightarrow> int \<Rightarrow> string list" where
  "check_min path lo v =
     (if v < lo
      then [''Path `'' @ path @ ''` ('' @ string_of_int v @ '') is less than minimum allowed value (''
            @ string_of_int lo @ '').'']
      else [])"

definition check_max :: "string \<Rightarrow> int \<Rightarrow> int \<Rightarrow> string list" where
  "check_max path hi v =
     (if hi < v
      then [''Path `'' @ path @ ''` ('' @ string_of_int v @ '') is more than maximum allowed value (''
            @ string_of_int hi @ '').'']
      else [])"

definition check_enum :: "string \<Rightarrow> string list \<Rightarrow> string \<Rightarrow> string list" where
  "check_enum path allowed v =
     (if v \<in> set allowed then []
      else [''`'' @ v @ ''` is not a valid enum value for path `'' @ path @ ''`.''])"

definition check_required :: "string \<Rightarrow> 'a option \<Rightarrow> string list" where
  "check_required path v = (case v of None \<Rightarrow> [required_message path] | Some _ \<Rightarrow> [])"

text \<open>\<^verbatim>\<open>messages.join(', ')\<close>.\<close>

fun join_messages :: "string list \<Rightarrow> string" where
  "join_messages [] = []"
| "join_messages [m] = m"
| "join_messages (m # ms) = m @ '', '' @ join_messages ms"

subsection \<open>Double precision arithmetic of percentages\<close>

text \<open>
  Every percentage of the code is \<^verbatim>\<open>Math.round((a / b) * 100)\<close> on IEEE 754 binary64 numbers.
  A double is modelled by the rational it denotes; \<open>to_double\<close> rounds a rational to the nearest
  double (53 significant bits, ties to even; the exponent range is not modelled, the values
  here are far inside it). Division and multiplication are the exact operation followed by
  \<open>to_double\<close>. \<^verbatim>\<open>Math.round\<close> is exact: the nearest integer, a tie going up.
\<close>

definition round_ties_even :: "rat \<Rightarrow> int" where
  "round_ties_even x =
     (let f = \<lfloor>x\<rfloor>; r = x - of_int f
      in if r < 1 / 2 then f else if 1 / 2 < r then f + 1 else if even f then f else f + 1)"

definition binary_exponent :: "rat \<Rightarrow> int" where
  "binary_exponent x =
     (let (a, b) = quotient_of x; d = bitlen a - bitlen b
      in if 2 powi d \<le> x then d else d - 1)"

definition to_double :: "rat \<Rightarrow> rat" where
  "to_double x =
     (if x = 0 then 0
      else let e = binary_exponent \<bar>x\<bar>
           in sgn x * of_int (round_ties_even (\<bar>x\<bar> * 2 powi (52 - e))) * 2 powi (e - 52))"

definition Math_round :: "rat \<Rightarrow> int" where
  "Math_round x = \<lfloor>x + 1 / 2\<rfloor>"

definition js_percent :: "nat \<Rightarrow> nat \<Rightarrow> int" where
  "js_percent a b = Math_round (to_double (to_double (of_nat a / of_nat b) * 100))"

subsection \<open>HTTP responses\<close>

record response =
  code :: nat
  message :: string

abbreviation BadRequest :: nat where "BadRequest \<equiv> 400"
abbreviation NotFound :: nat where "NotFound \<equiv> 404"
abbreviation Conflict :: nat where "Conflict \<equiv> 409"

definition respond :: "nat \<Rightarrow> string \<Rightarrow> response" where
  "respond c m = \<lparr>code = c, message = m\<rparr>"

text \<open>The answer of every \<^verbatim>\<open>catch\<close> to an error it does not tell apart.\<close>

definition server_error :: response where
  "server_error = respond 500 ''Server error''"

section \<open>Schemas\<close>

text \<open>
  The fields the modelled operations read or write. \<open>studentId\<close>, \<open>enrollmentId\<close> and
  \<open>paymentId\<close> are the human-readable identifiers the schemas require; \<open>None\<close> is a document
  that does not carry one. A module identifier is the hexadecimal string of its ObjectId, in
  lower case, which is what \<^verbatim>\<open>toString()\<close> gives.
\<close>

record installment =
  inst_status :: string
  inst_paidAmount :: "int option"
  inst_paidDate :: "date option"

record student =
  s_id :: oid
  s_studentId :: "string option"
  fullName :: string
  phone :: string
  email :: "string option"
  admissionType :: string
  leadSource :: "oid option"
  s_enrollments :: "oid list"
  totalFees :: jsnum
  paidAmount :: jsnum
  pendingAmount :: jsnum
  paymentSchedule :: "installment list"

record module_completion =
  moduleId :: string
  completedAt :: date
  score :: "int option"

record attendance_record =
  att_date :: date
  att_session :: oid
  att_status :: string
  att_remarks :: string

record enrollment =
  e_id :: oid
  e_enrollmentId :: "string option"
  e_student :: oid
  e_course :: oid
  e_batch :: "oid option"
  e_status :: string
  fees_total :: int
  fees_paid :: int
  fees_pending :: int
  e_paymentPlan :: "installment list"
  progress_percentage :: int
  completedModules :: "module_completion list"
  lastAccessed :: "date option"
  attendance :: "attendance_record list"

record payment =
  p_id :: oid
  p_paymentId :: "string option"
  p_student :: oid
  p_enrollment :: "oid option"
  amount :: int
  paymentMode :: string
  p_status :: string
  receivedBy :: "oid option"
  verifiedBy :: "oid option"
  p_remarks :: string

record roster_entry =
  r_student :: oid
  r_enrollmentDate :: date
  r_status :: string
  r_attendancePercentage :: "int option"

record batch =
  b_id :: oid
  b_course :: oid
  b_status :: string
  maxStudents :: int
  currentStudents :: int
  b_students :: "roster_entry list"

record enrollment_stats =
  totalEnrolled :: nat
  active :: nat
  completed :: nat
  dropout :: nat

record course =
  c_id :: oid
  curriculum :: "oid list"
  enrollmentStats :: enrollment_stats

record lead =
  l_id :: oid
  l_fullName :: string
  l_phone :: string
  l_email :: "string option"
  l_status :: string
  convertedToStudent :: bool
  convertedDate :: "date option"
  convertedStudentId :: "oid option"

record db =
  Students :: "student list"
  Enrollments :: "enrollment list"
  Payments :: "payment list"
  Batches :: "batch list"
  Courses :: "course list"
  Leads :: "lead list"
  next_oid :: oid

definition Student_findById :: "db \<Rightarrow> oid \<Rightarrow> student option" where
  "Student_findById d i = find (\<lambda>s. s_id s = i) (Students d)"

definition Enrollment_findById :: "db \<Rightarrow> oid \<Rightarrow> enrollment option" where
  "Enrollment_findById d i = find (\<lambda>e. e_id e = i) (Enrollments d)"

definition Batch_findById :: "db \<Rightarrow> oid \<Rightarrow> batch option" where
  "Batch_findById d i = find (\<lambda>b. b_id b = i) (Batches d)"

definition Course_findById :: "db \<Rightarrow> oid \<Rightarrow> course option" where
  "Course_findById d i = find (\<lambda>c. c_id c = i) (Courses d)"

definition Lead_findById :: "db \<Rightarrow> oid \<Rightarrow> lead option" where
  "Lead_findById d i = find (\<lambda>l. l_id l = i) (Leads d)"

section \<open>Student fee ledger\<close>

text \<open>
  \<^verbatim>\<open>studentSchema.pre('save')\<close>. The branch that takes \<open>studentId\<close> from the counter is left out:
  a document without \<open>studentId\<close> does not pass the validation that comes first.
\<close>

definition student_pre_save :: "student \<Rightarrow> student" where
  "student_pre_save st = st\<lparr>pendingAmount := js_sub (totalFees st) (paidAmount st)\<rparr>"

text \<open>The part of \<^verbatim>\<open>save()\<close> after the validation: the pre-save hook, then the write.\<close>

definition student_store :: "db \<Rightarrow> student \<Rightarrow> student \<times> db" where
  "student_store d st =
     (let st' = student_pre_save st
      in (st', d\<lparr>Students := put_doc s_id st' (Students d)\<rparr>))"

text \<open>
  The validators of the ledger: \<^verbatim>\<open>min: 0\<close> on \<open>paidAmount\<close> and on \<open>pendingAmount\<close>; a value that
  is \<^verbatim>\<open>NaN\<close> is no Number at all.
\<close>

definition ledger_valid :: "student \<Rightarrow> bool" where
  "ledger_valid st =
     ((case paidAmount st of None \<Rightarrow> False | Some p \<Rightarrow> 0 \<le> p) \<and>
      (case pendingAmount st of None \<Rightarrow> False | Some q \<Rightarrow> 0 \<le> q))"

text \<open>\<^verbatim>\<open>student.save()\<close> after a change of the ledger; \<open>None\<close> is the rejected save.\<close>

definition Student_save :: "db \<Rightarrow> student \<Rightarrow> (student \<times> db) option" where
  "Student_save d st = (if ledger_valid st then Some (student_store d st) else None)"

text \<open>
  The installment branch of both \<^verbatim>\<open>updatePayment\<close> methods: taken when the number is not
  \<^verbatim>\<open>null\<close> and indexes an existing installment.
\<close>

definition pay_installment :: "installment list \<Rightarrow> nat option \<Rightarrow> int \<Rightarrow> date \<Rightarrow> installment list" where
  "pay_installment sched installmentNumber amt now =
     (case installmentNumber of
        None \<Rightarrow> sched
      | Some i \<Rightarrow>
          if i < length sched
          then sched[i := (sched ! i)\<lparr>inst_status := ''paid'', inst_paidAmount := Some amt,
                                       inst_paidDate := Some now\<rparr>]
          else sched)"

text \<open>\<^verbatim>\<open>studentSchema.methods.updatePayment\<close>: the in-memory update, then \<^verbatim>\<open>this.save()\<close>.\<close>

definition student_updatePayment ::
  "db \<Rightarrow> student \<Rightarrow> int \<Rightarrow> nat option \<Rightarrow> date \<Rightarrow> (student \<times> db) option" where
  "student_updatePayment d st amt installmentNumber now =
     (let st1 = st\<lparr>paidAmount := js_add (paidAmount st) (Some amt)\<rparr>;
          st2 = st1\<lparr>pendingAmount := js_sub (totalFees st1) (paidAmount st1)\<rparr>;
          st3 = st2\<lparr>paymentSchedule := pay_installment (paymentSchedule st2) installmentNumber amt now\<rparr>
      in Student_save d st3)"




text \<open>
  \<^verbatim>\<open>Student.create\<close>: the validators of the fields of the model, then the unique indexes of
  \<open>studentId\<close>, phone and email, then the pre-save hook and the insert.
\<close>

definition Student_validate :: "student \<Rightarrow> string list" where
  "Student_validate st =
     check_required ''studentId'' (s_studentId st) @
     (if fullName st = [] then [required_message ''personalDetails.fullName''] else []) @
     (if phone st = [] then [required_message ''personalDetails.phone''] else []) @
     (case totalFees st of
        None \<Rightarrow> [required_message ''paymentPlan.totalFees'']
      | Some t \<Rightarrow> check_min ''paymentPlan.totalFees'' 0 t) @
     (case paidAmount st of None \<Rightarrow> [] | Some p \<Rightarrow> check_min ''paymentPlan.paidAmount'' 0 p) @
     (case pendingAmount st of None \<Rightarrow> [] | Some q \<Rightarrow> check_min ''paymentPlan.pendingAmount'' 0 q)"

definition duplicate_student :: "db \<Rightarrow> student \<Rightarrow> bool" where
  "duplicate_student d st =
     list_ex (\<lambda>s. s_studentId s = s_studentId st \<or> phone s = phone st \<or>
                  (email st \<noteq> None \<and> email s = email st)) (Students d)"

definition Student_create :: "db \<Rightarrow> student \<Rightarrow> store_error + student \<times> db" where
  "Student_create d studentData =
     (if Student_validate studentData \<noteq> [] then Inl (ValidationError (Student_validate studentData))
      else if duplicate_student d studentData then Inl DuplicateKey
      else
        (let st = student_pre_save (studentData\<lparr>s_id := next_oid d\<rparr>)
         in Inr (st, d\<lparr>Students := Students d @ [st], next_oid := Suc (next_oid d)\<rparr>)))"

section \<open>Enrollment\<close>

text \<open>
  \<^verbatim>\<open>enrollmentSchema.pre('save')\<close>: the pending fee and, when the course is found, the progress
  percentage are recomputed. The branch that takes \<open>enrollmentId\<close> from the counter is left
  out: a document without \<open>enrollmentId\<close> does not pass the validation that comes first.
\<close>

definition enrollment_pre_save :: "db \<Rightarrow> enrollment \<Rightarrow> enrollment" where
  "enrollment_pre_save d e =
     (let e1 = e\<lparr>fees_pending := fees_total e - fees_paid e\<rparr>
      in case Course_findById d (e_course e1) of
           None \<Rightarrow> e1
         | Some c \<Rightarrow>
             (let totalModules = length (curriculum c);
                  completed' = length (completedModules e1)
              in e1\<lparr>progress_percentage :=
                       (if 0 < totalModules then js_percent completed' totalModules else 0)\<rparr>))"

text \<open>The part of \<^verbatim>\<open>save()\<close> after the validation: the pre-save hook, then the write.\<close>

definition enrollment_store :: "db \<Rightarrow> enrollment \<Rightarrow> enrollment \<times> db" where
  "enrollment_store d e =
     (let e' = enrollment_pre_save d e
      in (e', d\<lparr>Enrollments := put_doc e_id e' (Enrollments d)\<rparr>))"

text \<open>
  The validators on the fields of the model, in the order of the schema: \<open>enrollmentId\<close> is
  required, the status is one of the enumeration, the three fees are at least 0 and the
  progress percentage lies between 0 and 100. The lists of a request body are taken as valid.
\<close>

definition enrollment_statuses :: "string list" where
  "enrollment_statuses =
     [''pending'', ''active'', ''completed'', ''dropped'', ''suspended'', ''transferred'']"

definition Enrollment_validate :: "enrollment \<Rightarrow> string list" where
  "Enrollment_validate e =
     check_required ''enrollmentId'' (e_enrollmentId e) @
     check_enum ''status'' enrollment_statuses (e_status e) @
     check_min ''fees.total'' 0 (fees_total e) @
     check_min ''fees.paid'' 0 (fees_paid e) @
     check_min ''fees.pending'' 0 (fees_pending e) @
     check_min ''progress.percentage'' 0 (progress_percentage e) @
     check_max ''progress.percentage'' 100 (progress_percentage e)"

text \<open>
  \<^verbatim>\<open>Enrollment.create\<close>: validation, then the pre-save hook, then the insert under a fresh
  identifier, which the unique indexes of \<open>enrollmentId\<close> and of the pair of student and course
  can refuse.
\<close>

definition duplicate_enrollment :: "db \<Rightarrow> enrollment \<Rightarrow> bool" where
  "duplicate_enrollment d e =
     list_ex (\<lambda>x. e_enrollmentId x = e_enrollmentId e \<or>
                  (e_student x = e_student e \<and> e_course x = e_course e)) (Enrollments d)"

definition Enrollment_create :: "db \<Rightarrow> enrollment \<Rightarrow> store_error + enrollment \<times> db" where
  "Enrollment_create d body =
     (if Enrollment_validate body \<noteq> [] then Inl (ValidationError (Enrollment_validate body))
      else if duplicate_enrollment d body then Inl DuplicateKey
      else
        (let e = enrollment_pre_save d (body\<lparr>e_id := next_oid d\<rparr>)
         in Inr (e, d\<lparr>Enrollments := Enrollments d @ [e], next_oid := Suc (next_oid d)\<rparr>)))"



text \<open>
  \<^verbatim>\<open>new ObjectId(s)\<close> for a string of 24 hexadecimal digits, read back by \<^verbatim>\<open>toString()\<close>: the
  digits in lower case.
\<close>

definition lower_hex :: "char \<Rightarrow> char" where
  "lower_hex c =
     (if c = CHR ''A'' then CHR ''a'' else if c = CHR ''B'' then CHR ''b''
      else if c = CHR ''C'' then CHR ''c'' else if c = CHR ''D'' then CHR ''d''
      else if c = CHR ''E'' then CHR ''e'' else if c = CHR ''F'' then CHR ''f'' else c)"

definition cast_ObjectId :: "string \<Rightarrow> string" where
  "cast_ObjectId s = map lower_hex s"

text \<open>
  \<^verbatim>\<open>enrollmentSchema.methods.completeModule\<close>. The argument is the string of the request body,
  which the route has checked with \<^verbatim>\<open>isMongoId()\<close>: 24 hexadecimal digits in either case. The
  search compares \<^verbatim>\<open>m.moduleId.toString()\<close> with that string as it is; the record that is
  written holds the ObjectId the string is cast to. The paths the method modifies carry no
  validator, so the save is not rejected.
\<close>

definition completeModule :: "db \<Rightarrow> enrollment \<Rightarrow> string \<Rightarrow> int option \<Rightarrow> date \<Rightarrow> enrollment \<times> db" where
  "completeModule d e mid sc now =
     (let moduleCompletion = \<lparr>moduleId = cast_ObjectId mid, completedAt = now, score = sc\<rparr>;
          existingIndex = find_index (\<lambda>m. moduleId m = mid) (completedModules e);
          e1 = (case existingIndex of
                  Some i \<Rightarrow> e\<lparr>completedModules := (completedModules e)[i := moduleCompletion]\<rparr>
                | None \<Rightarrow> e\<lparr>completedModules := completedModules e @ [moduleCompletion]\<rparr>);
          e2 = e1\<lparr>lastAccessed := Some now\<rparr>
      in enrollment_store d e2)"

text \<open>The controller \<^verbatim>\<open>updateProgress\<close> of \<^verbatim>\<open>PUT /api/enrollments/:id/progress\<close>.\<close>

definition updateProgress :: "db \<Rightarrow> oid \<Rightarrow> string \<Rightarrow> int option \<Rightarrow> date \<Rightarrow> response \<times> db" where
  "updateProgress d i mid sc now =
     (case Enrollment_findById d i of
        None \<Rightarrow> (respond NotFound ''Enrollment not found'', d)
      | Some e \<Rightarrow> (respond 200 ''Progress updated successfully'', snd (completeModule d e mid sc now)))"

text \<open>
  The \<^verbatim>\<open>attendancePercentage\<close> virtual of the Enrollment schema and the controller helper
  \<^verbatim>\<open>calculateAttendancePercentage\<close>.
\<close>

definition attendancePercentage :: "enrollment \<Rightarrow> int" where
  "attendancePercentage e =
     (if length (attendance e) = 0 then 0
      else let presentDays = length (filter (\<lambda>session. att_status session = ''present'' \<or>
                                                   att_status session = ''late'') (attendance e))
           in js_percent presentDays (length (attendance e)))"

definition calculateAttendancePercentage :: "attendance_record list \<Rightarrow> int" where
  "calculateAttendancePercentage att =
     (if length att = 0 then 0
      else let presentDays = length (filter (\<lambda>session. att_status session = ''present'' \<or>
                                                   att_status session = ''late'') att)
           in js_percent presentDays (length att))"

section \<open>Payments\<close>

text \<open>
  \<^verbatim>\<open>paymentSchema.post('save')\<close>. Its first statement is
  \<^verbatim>\<open>Student.findByIdAndUpdate(this.student, {$inc: ..., $set: {'paymentPlan.pendingAmount': {$subtract: [...]}}})\<close>:
  a classic update document with an aggregation expression as the value to set. The update is
  cast to the schema before it is sent; the expression object is no Number, the call rejects,
  and the \<^verbatim>\<open>catch\<close> of the hook logs the error. The update of the Enrollment, which has the
  same form, comes after it in the same \<^verbatim>\<open>try\<close> block and is not reached. The hook changes no
  document.
\<close>

definition payment_post_save :: "db \<Rightarrow> payment \<Rightarrow> db" where
  "payment_post_save d p = d"

text \<open>
  \<^verbatim>\<open>Payment.create\<close>: the validators on the fields of the model (\<open>paymentId\<close> is required, the
  amount is at least 0, the mode is required and, as the status, of its enumeration), then the insert under a
  fresh identifier, which the unique index of \<open>paymentId\<close> can refuse, then the post-save hook.
  The receipt number taken from the counter is left out.
\<close>

definition payment_modes :: "string list" where
  "payment_modes = [''cash'', ''cheque'', ''online'', ''card'', ''bank_transfer'', ''upi'', ''other'']"

definition payment_statuses :: "string list" where
  "payment_statuses = [''pending'', ''completed'', ''failed'', ''refunded'', ''cancelled'']"

definition Payment_validate :: "payment \<Rightarrow> string list" where
  "Payment_validate p =
     check_required ''paymentId'' (p_paymentId p) @
     check_min ''amount'' 0 (amount p) @
     (if paymentMode p = [] then [required_message ''paymentMode'']
      else check_enum ''paymentMode'' payment_modes (paymentMode p)) @
     check_enum ''status'' payment_statuses (p_status p)"

definition Payment_create :: "db \<Rightarrow> payment \<Rightarrow> store_error + payment \<times> db" where
  "Payment_create d paymentData =
     (if Payment_validate paymentData \<noteq> [] then Inl (ValidationError (Payment_validate paymentData))
      else if list_ex (\<lambda>x. p_paymentId x = p_paymentId paymentData) (Payments d) then Inl DuplicateKey
      else
        (let p = paymentData\<lparr>p_id := next_oid d\<rparr>;
             d1 = d\<lparr>Payments := Payments d @ [p], next_oid := Suc (next_oid d)\<rparr>
         in Inr (p, payment_post_save d1 p)))"

text \<open>
  The controller \<^verbatim>\<open>updatePayment\<close> of \<^verbatim>\<open>POST /api/students/:id/payment\<close>. The payment data it
  builds carries no \<open>paymentId\<close>. Every error is answered by the one \<^verbatim>\<open>catch\<close>, which undoes
  nothing.
\<close>

definition updatePayment ::
  "db \<Rightarrow> oid \<Rightarrow> int \<Rightarrow> string \<Rightarrow> nat option \<Rightarrow> string \<Rightarrow> oid \<Rightarrow> date \<Rightarrow> response \<times> db" where
  "updatePayment d i amt mode installmentNumber remarks user now =
     (case Student_findById d i of
        None \<Rightarrow> (respond NotFound ''Student not found'', d)
      | Some st0 \<Rightarrow>
          (case student_updatePayment d st0 amt installmentNumber now of
             None \<Rightarrow> (server_error, d)
           | Some (st, d1) \<Rightarrow>
               (let paymentData =
                      \<lparr>p_id = 0, p_paymentId = None, p_student = s_id st, p_enrollment = None,
                       amount = amt, paymentMode = mode, p_status = ''completed'',
                       receivedBy = Some user, verifiedBy = Some user, p_remarks = remarks\<rparr>
                in case Payment_create d1 paymentData of
                     Inl err \<Rightarrow> (server_error, d1)
                   | Inr (payment, d2) \<Rightarrow> (respond 200 ''Payment recorded successfully'', d2))))"

text \<open>
  The controller \<^verbatim>\<open>createPayment\<close> of \<^verbatim>\<open>POST /api/payments\<close>; \<open>body\<close> is the request body. Its
  \<^verbatim>\<open>catch\<close> answers a validation error with 400 and the texts, and any other error with 500.
\<close>

definition createPayment :: "db \<Rightarrow> payment \<Rightarrow> string \<Rightarrow> oid \<Rightarrow> response \<times> db" where
  "createPayment d body role user =
     (let paymentData = body\<lparr>receivedBy := Some user\<rparr>;
          paymentData' = (if role = ''admin'' \<or> role = ''employee''
                          then paymentData\<lparr>p_status := ''completed'', verifiedBy := Some user\<rparr>
                          else paymentData)
      in case Payment_create d paymentData' of
           Inl (ValidationError messages) \<Rightarrow> (respond 400 (join_messages messages), d)
         | Inl DuplicateKey \<Rightarrow> (server_error, d)
         | Inr (payment, d1) \<Rightarrow> (respond 201 ''Payment recorded successfully'', d1))"


section \<open>Attendance percentage as specified\<close>

text \<open>
  The percentage in the words of the specification, for comparison with the code: the count of
  records that are present or late, times 100, over the total count, in exact arithmetic and
  rounded half up; 0 when there is no record. The quotient lies exactly half way between two
  integers when \<open>exact_half\<close> holds.
\<close>

definition present_or_late :: "attendance_record list \<Rightarrow> nat" where
  "present_or_late att =
     length (filter (\<lambda>r. att_status r = ''present'' \<or> att_status r = ''late'') att)"

definition spec_percentage :: "nat \<Rightarrow> nat \<Rightarrow> int" where
  "spec_percentage presentOrLate total' =
     (if total' = 0 then 0 else \<lfloor>100 * of_nat presentOrLate / (of_nat total' :: rat) + 1 / 2\<rfloor>)"

definition exact_half :: "nat \<Rightarrow> nat \<Rightarrow> bool" where
  "exact_half presentOrLate total' = ((200 * presentOrLate + total') mod (2 * total') = 0)"

section \<open>Course statistics\<close>

text \<open>
  The identifier of a course as the code holds it: the hexadecimal string of a request body, or
  the ObjectId of a stored document. A query is cast to the schema, so \<^verbatim>\<open>findById\<close> and
  \<^verbatim>\<open>findByIdAndUpdate\<close> take either. An aggregation pipeline is sent as it is: its \<^verbatim>\<open>$match\<close>
  compares the stored ObjectId with the value given, and no string equals an ObjectId.
\<close>

datatype course_ref = HexString oid | ObjectId oid

fun cast_ref :: "course_ref \<Rightarrow> oid" where
  "cast_ref (HexString c) = c"
| "cast_ref (ObjectId c) = c"

fun match_course :: "course_ref \<Rightarrow> enrollment \<Rightarrow> bool" where
  "match_course (HexString c) e = False"
| "match_course (ObjectId c) e = (e_course e = c)"

text \<open>
  The aggregation \<^verbatim>\<open>$match {course}\<close>, \<^verbatim>\<open>$group {_id: '$status', count: {$sum: 1}}\<close>: one group
  for each status that occurs among the matched enrollments, with their number.
\<close>

definition aggregate_by_status :: "db \<Rightarrow> course_ref \<Rightarrow> (string \<times> nat) list" where
  "aggregate_by_status d courseId =
     (let statuses = map e_status (filter (match_course courseId) (Enrollments d))
      in map (\<lambda>k. (k, count_list statuses k)) (remdups statuses))"

text \<open>The body of \<^verbatim>\<open>stats.forEach\<close>.\<close>

definition tally :: "enrollment_stats \<Rightarrow> string \<times> nat \<Rightarrow> enrollment_stats" where
  "tally acc stat =
     (let a1 = acc\<lparr>totalEnrolled := totalEnrolled acc + snd stat\<rparr>;
          a2 = (if fst stat = ''active'' then a1\<lparr>active := snd stat\<rparr> else a1);
          a3 = (if fst stat = ''completed'' then a2\<lparr>completed := snd stat\<rparr> else a2)
      in if fst stat = ''dropped'' then a3\<lparr>dropout := snd stat\<rparr> else a3)"

definition tally_all :: "(string \<times> nat) list \<Rightarrow> enrollment_stats" where
  "tally_all stats =
     foldl tally \<lparr>totalEnrolled = 0, active = 0, completed = 0, dropout = 0\<rparr> stats"

text \<open>The controller helper \<^verbatim>\<open>updateCourseEnrollmentStats\<close>.\<close>

definition updateCourseEnrollmentStats :: "db \<Rightarrow> course_ref \<Rightarrow> db" where
  "updateCourseEnrollmentStats d courseId =
     (let stats = aggregate_by_status d courseId;
          enrollmentStats' = tally_all stats
      in d\<lparr>Courses := update_first (\<lambda>c. c_id c = cast_ref courseId)
                         (\<lambda>c. c\<lparr>enrollmentStats := enrollmentStats'\<rparr>) (Courses d)\<rparr>)"

text \<open>
  \<^verbatim>\<open>courseSchema.methods.updateEnrollmentStats\<close>: the same recount, matched on \<^verbatim>\<open>this._id\<close> and
  stored by \<^verbatim>\<open>this.save()\<close>.
\<close>

definition course_updateEnrollmentStats :: "db \<Rightarrow> course \<Rightarrow> course \<times> db" where
  "course_updateEnrollmentStats d c =
     (let results = aggregate_by_status d (ObjectId (c_id c));
          c' = c\<lparr>enrollmentStats := tally_all results\<rparr>
      in (c', d\<lparr>Courses := put_doc c_id c' (Courses d)\<rparr>))"

text \<open>The recount the statistics are compared with: plain counts over the enrollments of a course.\<close>

definition recount :: "db \<Rightarrow> oid \<Rightarrow> enrollment_stats" where
  "recount d courseId =
     (let es = filter (\<lambda>e. e_course e = courseId) (Enrollments d)
      in \<lparr>totalEnrolled = length es,
          active = length (filter (\<lambda>e. e_status e = ''active'') es),
          completed = length (filter (\<lambda>e. e_status e = ''completed'') es),
          dropout = length (filter (\<lambda>e. e_status e = ''dropped'') es)\<rparr>)"

section \<open>Enrollment controllers\<close>

definition already_enrolled_message :: string where
  "already_enrolled_message = ''Student is already enrolled or has a pending enrollment for this course''"

text \<open>
  The query \<^verbatim>\<open>Enrollment.findOne({student, course, status: {$in: ['pending', 'active']}})\<close>.
\<close>

definition existingEnrollment :: "db \<Rightarrow> oid \<Rightarrow> oid \<Rightarrow> enrollment option" where
  "existingEnrollment d studentId courseId =
     find (\<lambda>e. e_student e = studentId \<and> e_course e = courseId \<and>
               (e_status e = ''pending'' \<or> e_status e = ''active'')) (Enrollments d)"

definition batch_is_full :: "db \<Rightarrow> oid option \<Rightarrow> bool" where
  "batch_is_full d batchId =
     (case batchId of
        None \<Rightarrow> False
      | Some b \<Rightarrow> (case Batch_findById d b of
                     None \<Rightarrow> False
                   | Some batch \<Rightarrow> maxStudents batch \<le> currentStudents batch))"

text \<open>
  The controller \<^verbatim>\<open>createEnrollment\<close> of \<^verbatim>\<open>POST /api/enrollments\<close>; \<open>body\<close> is the request body,
  its \<open>e_id\<close> is ignored. The course handed to \<^verbatim>\<open>updateCourseEnrollmentStats\<close> is
  \<^verbatim>\<open>enrollmentData.course\<close>, the string of the body. The embedded \<open>enrollments\<close> of a Student are
  kept as the values pushed to them. The updates by \<^verbatim>\<open>findByIdAndUpdate\<close> run no validator.
\<close>

definition createEnrollment :: "db \<Rightarrow> enrollment \<Rightarrow> response \<times> db" where
  "createEnrollment d body =
     (if existingEnrollment d (e_student body) (e_course body) \<noteq> None
      then (respond 400 already_enrolled_message, d)
      else if batch_is_full d (e_batch body)
      then (respond 400 ''Selected batch is full'', d)
      else
        (case Enrollment_create d body of
           Inl (ValidationError messages) \<Rightarrow> (respond 400 (join_messages messages), d)
         | Inl DuplicateKey \<Rightarrow> (respond 400 ''Enrollment ID already exists'', d)
         | Inr (enrollment, d1) \<Rightarrow>
             (let d2 = d1\<lparr>Students := update_first (\<lambda>s. s_id s = e_student body)
                             (\<lambda>s. s\<lparr>s_enrollments := s_enrollments s @ [e_id enrollment]\<rparr>)
                             (Students d1)\<rparr>;
                  d3 = (case e_batch body of
                          None \<Rightarrow> d2
                        | Some b \<Rightarrow>
                            d2\<lparr>Batches := update_first (\<lambda>x. b_id x = b)
                                  (\<lambda>x. x\<lparr>currentStudents := currentStudents x + 1\<rparr>) (Batches d2)\<rparr>);
                  d4 = updateCourseEnrollmentStats d3 (HexString (e_course body))
              in (respond 201 ''Enrollment created successfully'', d4))))"

text \<open>
  The controller \<^verbatim>\<open>enrollStudent\<close> of \<^verbatim>\<open>POST /api/students/:id/enroll\<close>. The enrollment data it
  builds carries no \<open>enrollmentId\<close>, so the statements after \<^verbatim>\<open>Enrollment.create\<close> are not
  reached; they touch neither the batch nor the course statistics.
\<close>

definition enrollStudent :: "db \<Rightarrow> oid \<Rightarrow> oid \<Rightarrow> oid option \<Rightarrow> int \<Rightarrow> response \<times> db" where
  "enrollStudent d i courseId batchId feesTotal =
     (case Student_findById d i of
        None \<Rightarrow> (respond NotFound ''Student not found'', d)
      | Some student0 \<Rightarrow>
          if existingEnrollment d (s_id student0) courseId \<noteq> None
          then (respond 400 already_enrolled_message, d)
          else
            (let enrollmentData =
                   \<lparr>e_id = 0, e_enrollmentId = None, e_student = s_id student0, e_course = courseId,
                    e_batch = batchId, e_status = ''pending'', fees_total = feesTotal, fees_paid = 0,
                    fees_pending = feesTotal, e_paymentPlan = [], progress_percentage = 0,
                    completedModules = [], lastAccessed = None, attendance = []\<rparr>
             in case Enrollment_create d enrollmentData of
                  Inl err \<Rightarrow> (server_error, d)
                | Inr (enrollment, d1) \<Rightarrow>
                    (case Student_save d1
                            (student0\<lparr>s_enrollments := s_enrollments student0 @ [e_id enrollment]\<rparr>) of
                       None \<Rightarrow> (server_error, d1)
                     | Some (student1, d2) \<Rightarrow>
                         (let newTotalFees = or0 (totalFees student1) + feesTotal;
                              newPendingAmount = newTotalFees - or0 (paidAmount student1)
                          in case Student_save d2
                                    (student1\<lparr>totalFees := Some newTotalFees,
                                              paidAmount := Some (or0 (paidAmount student1)),
                                              pendingAmount := Some newPendingAmount\<rparr>) of
                               None \<Rightarrow> (server_error, d2)
                             | Some (student2, d3) \<Rightarrow>
                                 (respond 201 ''Student enrolled successfully'', d3)))))"

section \<open>Batch controllers\<close>

text \<open>
  The controller \<^verbatim>\<open>addStudentToBatch\<close> of \<^verbatim>\<open>POST /api/batches/:id/students\<close>. The save
  validates the counter that the controller has set (\<^verbatim>\<open>min: 0\<close>).
\<close>

definition addStudentToBatch :: "db \<Rightarrow> oid \<Rightarrow> oid \<Rightarrow> date \<Rightarrow> response \<times> db" where
  "addStudentToBatch d batchId studentId now =
     (case Batch_findById d batchId of
        None \<Rightarrow> (respond NotFound ''Batch not found'', d)
      | Some batch \<Rightarrow>
          (case Student_findById d studentId of
             None \<Rightarrow> (respond NotFound ''Student not found'', d)
           | Some student \<Rightarrow>
               if maxStudents batch \<le> currentStudents batch
               then (respond BadRequest ''Batch is full'', d)
               else if find (\<lambda>s. r_student s = studentId) (b_students batch) \<noteq> None
               then (respond BadRequest ''Student already enrolled in this batch'', d)
               else
                 (let batch1 = batch\<lparr>b_students := b_students batch @
                                   [\<lparr>r_student = studentId, r_enrollmentDate = now,
                                     r_status = ''active'', r_attendancePercentage = None\<rparr>]\<rparr>;
                      batch2 = batch1\<lparr>currentStudents := currentStudents batch1 + 1\<rparr>
                  in if currentStudents batch2 < 0 then (server_error, d)
                     else (respond 200 ''Student added to batch successfully'',
                           d\<lparr>Batches := put_doc b_id batch2 (Batches d)\<rparr>))))"

text \<open>The controller \<^verbatim>\<open>removeStudentFromBatch\<close> of \<^verbatim>\<open>DELETE /api/batches/:id/students/:studentId\<close>.\<close>

definition removeStudentFromBatch :: "db \<Rightarrow> oid \<Rightarrow> oid \<Rightarrow> response \<times> db" where
  "removeStudentFromBatch d batchId studentId =
     (case Batch_findById d batchId of
        None \<Rightarrow> (respond NotFound ''Batch not found'', d)
      | Some batch \<Rightarrow>
          (case find_index (\<lambda>s. r_student s = studentId) (b_students batch) of
             None \<Rightarrow> (respond NotFound ''Student not found in this batch'', d)
           | Some studentIndex \<Rightarrow>
               (let batch1 = batch\<lparr>b_students := splice1 studentIndex (b_students batch)\<rparr>;
                    batch2 = batch1\<lparr>currentStudents := max 0 (currentStudents batch1 - 1)\<rparr>
                in (respond 200 ''Student removed from batch successfully'',
                    d\<lparr>Batches := put_doc b_id batch2 (Batches d)\<rparr>))))"

text \<open>The number of roster entries whose status is active.\<close>

definition active_roster :: "batch \<Rightarrow> nat" where
  "active_roster b = length (filter (\<lambda>s. r_status s = ''active'') (b_students b))"

definition seats_consistent :: "batch \<Rightarrow> bool" where
  "seats_consistent b = (currentStudents b = int (active_roster b))"

section \<open>Lead conversion\<close>

text \<open>
  The controller \<^verbatim>\<open>convertToStudent\<close> of \<^verbatim>\<open>POST /api/leads/:id/convert\<close>. The student data it
  builds from the lead carries neither \<open>studentId\<close> nor \<open>paymentPlan.totalFees\<close>; the two other
  numbers of the payment plan take their default 0. Its \<^verbatim>\<open>catch\<close> answers the duplicate key error
  with 400 and every other error with 500.
\<close>

definition convertToStudent :: "db \<Rightarrow> oid \<Rightarrow> date \<Rightarrow> response \<times> db" where
  "convertToStudent d i now =
     (case Lead_findById d i of
        None \<Rightarrow> (respond NotFound ''Lead not found'', d)
      | Some lead0 \<Rightarrow>
          if convertedToStudent lead0
          then (respond BadRequest ''Lead already converted to student'', d)
          else
            (let studentData =
                   \<lparr>s_id = 0, s_studentId = None, fullName = l_fullName lead0, phone = l_phone lead0,
                    email = l_email lead0, admissionType = ''lead_conversion'',
                    leadSource = Some (l_id lead0), s_enrollments = [], totalFees = None,
                    paidAmount = Some 0, pendingAmount = Some 0, paymentSchedule = []\<rparr>
             in case Student_create d studentData of
                  Inl DuplicateKey \<Rightarrow>
                    (respond BadRequest ''Student with this phone or email already exists'', d)
                | Inl (ValidationError messages) \<Rightarrow> (server_error, d)
                | Inr (student', d1) \<Rightarrow>
                    (let lead1 = lead0\<lparr>convertedToStudent := True, convertedDate := Some now,
                                      convertedStudentId := Some (s_id student'),
                                      l_status := ''converted''\<rparr>
                     in (respond 201 ''Lead converted to student successfully'',
                         d1\<lparr>Leads := put_doc l_id lead1 (Leads d1)\<rparr>))))"

section \<open>Stores the operations build\<close>



section \<open>Example data\<close>

definition scenarioA_student :: student where
  "scenarioA_student =
     \<lparr>s_id = 1, s_studentId = Some ''STU000001'', fullName = ''Asha'', phone = ''5550100'',
      email = None, admissionType = ''direct'', leadSource = None, s_enrollments = [5],
      totalFees = Some 10000, paidAmount = Some 0, pendingAmount = Some 10000,
      paymentSchedule = []\<rparr>"

definition scenarioA_enrollment :: enrollment where
  "scenarioA_enrollment =
     \<lparr>e_id = 5, e_enrollmentId = Some ''ENR00000001'', e_student = 1, e_course = 3, e_batch = None,
      e_status = ''active'', fees_total = 10000, fees_paid = 0, fees_pending = 10000,
      e_paymentPlan = [], progress_percentage = 0, completedModules = [], lastAccessed = None,
      attendance = []\<rparr>"

definition scenarioA_db :: db where
  "scenarioA_db =
     \<lparr>Students = [scenarioA_student], Enrollments = [scenarioA_enrollment], Payments = [],
      Batches = [], Courses = [], Leads = [], next_oid = 10\<rparr>"

text \<open>
  The body of \<^verbatim>\<open>POST /api/payments\<close> for Scenario A; the status is the default of the schema.
\<close>

definition scenarioA_payment :: payment where
  "scenarioA_payment =
     \<lparr>p_id = 0, p_paymentId = Some ''PAY00000001'', p_student = 1, p_enrollment = Some 5,
      amount = 4000, paymentMode = ''cash'', p_status = ''pending'', receivedBy = None,
      verifiedBy = None, p_remarks = []\<rparr>"

definition scenarioE_enrollment :: "oid \<Rightarrow> string \<Rightarrow> oid \<Rightarrow> string \<Rightarrow> enrollment" where
  "scenarioE_enrollment i eid c st =
     \<lparr>e_id = i, e_enrollmentId = Some eid, e_student = i, e_course = c,
      e_batch = None, e_status = st, fees_total = 5000, fees_paid = 0, fees_pending = 5000,
      e_paymentPlan = [], progress_percentage = 0, completedModules = [], lastAccessed = None,
      attendance = []\<rparr>"

definition scenarioE_db :: db where
  "scenarioE_db =
     \<lparr>Students = [],
      Enrollments = [scenarioE_enrollment 11 ''ENR00000011'' 3 ''active'',
                     scenarioE_enrollment 12 ''ENR00000012'' 3 ''completed'',
                     scenarioE_enrollment 13 ''ENR00000013'' 4 ''dropped'',
                     scenarioE_enrollment 14 ''ENR00000014'' 3 ''active''],
      Payments = [], Batches = [],
      Courses = [\<lparr>c_id = 3, curriculum = [],
                  enrollmentStats = \<lparr>totalEnrolled = 3, active = 2, completed = 1, dropout = 0\<rparr>\<rparr>],
      Leads = [], next_oid = 20\<rparr>"

text \<open>
  The body of \<^verbatim>\<open>POST /api/enrollments\<close> that enrolls a fourth student in the course of
  Scenario E; status and fees other than the total are the defaults of the schema.
\<close>

definition scenarioE_body :: enrollment where
  "scenarioE_body =
     \<lparr>e_id = 0, e_enrollmentId = Some ''ENR00000015'', e_student = 15, e_course = 3, e_batch = None,
      e_status = ''pending'', fees_total = 5000, fees_paid = 0, fees_pending = 0,
      e_paymentPlan = [], progress_percentage = 0, completedModules = [], lastAccessed = None,
      attendance = []\<rparr>"

definition module_a :: string where
  "module_a = ''aaaaaaaaaaaaaaaaaaaaaaaa''"

definition module_b :: string where
  "module_b = ''bbbbbbbbbbbbbbbbbbbbbbbb''"

definition module_A :: string where
  "module_A = ''AAAAAAAAAAAAAAAAAAAAAAAA''"

definition scenarioM_course :: course where
  "scenarioM_course =
     \<lparr>c_id = 3, curriculum = [1, 2, 3, 4],
      enrollmentStats = \<lparr>totalEnrolled = 1, active = 1, completed = 0, dropout = 0\<rparr>\<rparr>"

definition scenarioM_enrollment :: enrollment where
  "scenarioM_enrollment =
     \<lparr>e_id = 5, e_enrollmentId = Some ''ENR00000001'', e_student = 1, e_course = 3, e_batch = None,
      e_status = ''active'', fees_total = 10000, fees_paid = 0, fees_pending = 10000,
      e_paymentPlan = [], progress_percentage = 25,
      completedModules = [\<lparr>moduleId = module_a, completedAt = 2, score = None\<rparr>],
      lastAccessed = None, attendance = []\<rparr>"

definition scenarioM_db :: db where
  "scenarioM_db =
     \<lparr>Students = [], Enrollments = [scenarioM_enrollment], Payments = [], Batches = [],
      Courses = [scenarioM_course], Leads = [], next_oid = 10\<rparr>"

definition scenarioB_roster :: "oid \<Rightarrow> roster_entry" where
  "scenarioB_roster i =
     \<lparr>r_student = i, r_enrollmentDate = 1, r_status = ''active'', r_attendancePercentage = None\<rparr>"

definition scenarioB_student :: "oid \<Rightarrow> string \<Rightarrow> student" where
  "scenarioB_student i ph =
     \<lparr>s_id = i, s_studentId = Some (''STU'' @ ph), fullName = ''Student'', phone = ph, email = None,
      admissionType = ''direct'', leadSource = None, s_enrollments = [], totalFees = Some 0,
      paidAmount = Some 0, pendingAmount = Some 0, paymentSchedule = []\<rparr>"

definition scenarioB_db :: db where
  "scenarioB_db =
     \<lparr>Students = [scenarioB_student 1 ''5550101'', scenarioB_student 2 ''5550102'',
                  scenarioB_student 3 ''5550103''],
      Enrollments = [], Payments = [],
      Batches = [\<lparr>b_id = 7, b_course = 3, b_status = ''ongoing'', maxStudents = 2,
                  currentStudents = 2, b_students = [scenarioB_roster 1, scenarioB_roster 2]\<rparr>,
                 \<lparr>b_id = 8, b_course = 3, b_status = ''upcoming'', maxStudents = 2,
                  currentStudents = 0, b_students = []\<rparr>],
      Courses = [\<lparr>c_id = 3, curriculum = [],
                  enrollmentStats = \<lparr>totalEnrolled = 0, active = 0, completed = 0, dropout = 0\<rparr>\<rparr>],
      Leads = [], next_oid = 20\<rparr>"

text \<open>
  A body of \<^verbatim>\<open>POST /api/enrollments\<close> for student 3; status and fees other than the total are
  the defaults of the schema.
\<close>

definition scenarioB_body :: "oid option \<Rightarrow> enrollment" where
  "scenarioB_body b =
     \<lparr>e_id = 0, e_enrollmentId = Some ''ENR00000021'', e_student = 3, e_course = 3, e_batch = b,
      e_status = ''pending'', fees_total = 5000, fees_paid = 0, fees_pending = 0,
      e_paymentPlan = [], progress_percentage = 0, completedModules = [], lastAccessed = None,
      attendance = []\<rparr>"

text \<open>
  The Enrollment that this request stores for batch 8, and the store after the request.
\<close>

definition scenarioB_enrollment :: enrollment where
  "scenarioB_enrollment = (scenarioB_body (Some 8))\<lparr>e_id := 20, fees_pending := 5000\<rparr>"



definition scenarioD_lead :: lead where
  "scenarioD_lead =
     \<lparr>l_id = 30, l_fullName = ''Ravi'', l_phone = ''5550200'', l_email = None,
      l_status = ''qualified'', convertedToStudent = False, convertedDate = None,
      convertedStudentId = None\<rparr>"

definition scenarioD_db :: db where
  "scenarioD_db = scenarioB_db\<lparr>Leads := [scenarioD_lead], next_oid := 40\<rparr>"

definition scenarioC_record :: "string \<Rightarrow> attendance_record" where
  "scenarioC_record st = \<lparr>att_date = 1, att_session = 1, att_status = st, att_remarks = []\<rparr>"

definition scenarioC_attendance :: "attendance_record list" where
  "scenarioC_attendance =
     [scenarioC_record ''present'', scenarioC_record ''present'', scenarioC_record ''absent'',
      scenarioC_record ''late'']"

definition forty_days :: "attendance_record list" where
  "forty_days = replicate 23 (scenarioC_record ''present'') @ replicate 17 (scenarioC_record ''absent'')"

section \<open>Properties\<close>

subsection \<open>Fee summary\<close>


subsection \<open>Documents in a collection\<close>



lemma find_put_doc: "find (\<lambda>x. key x = key d) (put_doc key d ds) = Some d"
proof -
  have "find (\<lambda>x. key x = key d) (update_first (\<lambda>x. key x = key d) (\<lambda>_. d) ds) = Some d"
    if "find (\<lambda>x. key x = key d) ds \<noteq> None" for ds :: "'a list"
    using that by (induction ds) auto
  moreover have "find (\<lambda>x. key x = key d) (ds @ [d]) = Some d"
    if "find (\<lambda>x. key x = key d) ds = None" for ds :: "'a list"
    using that by (induction ds) (auto split: if_splits)
  ultimately show ?thesis by (simp add: put_doc_def)
qed

lemma find_update_first_Some:
  "find Q xs = Some x \<Longrightarrow> Q (f x) \<Longrightarrow> find Q (update_first Q f xs) = Some (f x)"
  by (induction xs) (auto split: if_splits)

subsection \<open>Writes that are rejected\<close>

text \<open>
  A document without the identifier its schema requires is not stored: the payment of the
  student payment endpoint, the enrollment of \<open>enrollStudent\<close> and the student of
  \<open>convertToStudent\<close>.
\<close>

lemma Payment_create_without_paymentId:
  "p_paymentId pd = None \<Longrightarrow> Payment_create d pd = Inl (ValidationError (Payment_validate pd))"
  by (simp add: Payment_create_def Payment_validate_def check_required_def)

lemma Enrollment_create_without_enrollmentId:
  "e_enrollmentId body = None
   \<Longrightarrow> Enrollment_create d body = Inl (ValidationError (Enrollment_validate body))"
  by (simp add: Enrollment_create_def Enrollment_validate_def check_required_def)

lemma Student_create_without_studentId:
  "s_studentId sd = None \<Longrightarrow> Student_create d sd = Inl (ValidationError (Student_validate sd))"
  by (simp add: Student_create_def Student_validate_def check_required_def)

subsection \<open>Fee ledger of an Enrollment\<close>










lemma Enrollments_Student_save:
  "Student_save d st = Some (st', d') \<Longrightarrow> Enrollments d' = Enrollments d"
  by (auto simp: Student_save_def student_store_def Let_def split: if_splits)








lemma createEnrollment_scenarioB:
  "createEnrollment scenarioB_db (scenarioB_body (Some 8)) =
     (respond 201 ''Enrollment created successfully'',
      scenarioB_db
        \<lparr>Students := [scenarioB_student 1 ''5550101'', scenarioB_student 2 ''5550102'',
                      (scenarioB_student 3 ''5550103'')\<lparr>s_enrollments := [20]\<rparr>],
         Enrollments := [scenarioB_enrollment],
         Batches := [\<lparr>b_id = 7, b_course = 3, b_status = ''ongoing'', maxStudents = 2,
                      currentStudents = 2, b_students = [scenarioB_roster 1, scenarioB_roster 2]\<rparr>,
                     \<lparr>b_id = 8, b_course = 3, b_status = ''upcoming'', maxStudents = 2,
                      currentStudents = 1, b_students = []\<rparr>],
         next_oid := 21\<rparr>)"
  by (simp add: createEnrollment_def existingEnrollment_def batch_is_full_def Batch_findById_def
        scenarioB_db_def scenarioB_body_def scenarioB_enrollment_def scenarioB_student_def
        Enrollment_create_def Enrollment_validate_def check_required_def check_enum_def
        check_min_def check_max_def enrollment_statuses_def duplicate_enrollment_def
        enrollment_pre_save_def Course_findById_def Let_def
        updateCourseEnrollmentStats_def aggregate_by_status_def tally_all_def)



subsection \<open>Fee ledger of a Student\<close>

text \<open>
  What the \<open>updatePayment\<close> method of a Student stores when its save is accepted: the amount is
  added once and the pending amount is recomputed.
\<close>

lemma student_updatePayment_ledger:
  assumes "totalFees st = Some t" and "paidAmount st = Some p"
    and "0 \<le> p + a" and "p + a \<le> t"
  shows "\<exists>st' d'. student_updatePayment d st a n now = Some (st', d')
           \<and> paidAmount st' = Some (p + a) \<and> pendingAmount st' = Some (t - (p + a))
           \<and> Student_findById d' (s_id st) = Some st'"
proof -
  define st3 where "st3 = st\<lparr>paidAmount := Some (p + a), pendingAmount := Some (t - (p + a)),
      paymentSchedule := pay_installment (paymentSchedule st) n a now\<rparr>"
  define st' where "st' = student_pre_save st3"
  have "student_updatePayment d st a n now
      = Some (st', d\<lparr>Students := put_doc s_id st' (Students d)\<rparr>)"
    using assms
    by (simp add: student_updatePayment_def Student_save_def student_store_def ledger_valid_def
          Let_def js_add_def js_sub_def st3_def st'_def)
  moreover have "paidAmount st' = Some (p + a)" "pendingAmount st' = Some (t - (p + a))"
    "s_id st' = s_id st"
    using assms by (simp_all add: st'_def st3_def student_pre_save_def js_sub_def)
  moreover have "Student_findById (d\<lparr>Students := put_doc s_id st' (Students d)\<rparr>) (s_id st') = Some st'"
    using find_put_doc [of s_id st' "Students d"] by (simp add: Student_findById_def)
  ultimately show ?thesis by simp
qed

text \<open>
  A payment beyond the total fees makes the pending amount negative, and the save is rejected.
\<close>

lemma student_updatePayment_overpaid:
  assumes "totalFees st = Some t" and "paidAmount st = Some p" and "t < p + a"
  shows "student_updatePayment d st a n now = None"
  using assms
  by (simp add: student_updatePayment_def Student_save_def ledger_valid_def Let_def
        js_add_def js_sub_def)

text \<open>The student payment endpoint never answers 200: the Payment it creates is rejected.\<close>

lemma updatePayment_never_recorded:
  "fst (updatePayment d i amt mode n remarks user now) = respond NotFound ''Student not found''
   \<or> fst (updatePayment d i amt mode n remarks user now) = server_error"
  by (simp add: updatePayment_def Let_def Payment_create_without_paymentId
        split: option.split prod.split)

lemma Payments_updatePayment:
  "Payments (snd (updatePayment d i amt mode n remarks user now)) = Payments d"
  by (auto simp: updatePayment_def Let_def Payment_create_without_paymentId
        student_updatePayment_def Student_save_def student_store_def
        split: option.split if_splits)

text \<open>
  C2. Recording a completed payment of 4000 for the student of Scenario A (total fees 10000,
  nothing paid) should leave 4000 paid and 6000 pending, and 4000 paid on the linked
  Enrollment. Payment creation by an administrator answers 201 and stores the Payment as
  completed, but the Student still has 0 paid and 10000 pending and the Enrollment still has
  0 paid: the update of the post-save hook is rejected. The student payment endpoint stores
  4000 paid and 6000 pending on the Student, then answers 500 and stores no Payment.
\<close>

theorem createPayment_credits_nothing:
  "createPayment scenarioA_db scenarioA_payment ''admin'' 9 =
     (respond 201 ''Payment recorded successfully'',
      scenarioA_db\<lparr>Payments := [scenarioA_payment\<lparr>p_id := 10, p_status := ''completed'',
                                    receivedBy := Some 9, verifiedBy := Some 9\<rparr>],
                   next_oid := 11\<rparr>)
   \<and> map_option (\<lambda>s. (totalFees s, paidAmount s, pendingAmount s))
        (Student_findById (snd (createPayment scenarioA_db scenarioA_payment ''admin'' 9)) 1)
       = Some (Some 10000, Some 0, Some 10000)
   \<and> map_option (\<lambda>e. (fees_total e, fees_paid e, fees_pending e))
        (Enrollment_findById (snd (createPayment scenarioA_db scenarioA_payment ''admin'' 9)) 5)
       = Some (10000, 0, 10000)
   \<and> fst (updatePayment scenarioA_db 1 4000 ''cash'' None [] 9 0) = respond 500 ''Server error''
   \<and> Payments (snd (updatePayment scenarioA_db 1 4000 ''cash'' None [] 9 0)) = []
   \<and> map_option (\<lambda>s. (totalFees s, paidAmount s, pendingAmount s))
        (Student_findById (snd (updatePayment scenarioA_db 1 4000 ''cash'' None [] 9 0)) 1)
       = Some (Some 10000, Some 4000, Some 6000)"
proof -
  have c: "createPayment scenarioA_db scenarioA_payment ''admin'' 9 =
     (respond 201 ''Payment recorded successfully'',
      scenarioA_db\<lparr>Payments := [scenarioA_payment\<lparr>p_id := 10, p_status := ''completed'',
                                    receivedBy := Some 9, verifiedBy := Some 9\<rparr>],
                   next_oid := 11\<rparr>)"
    by (simp add: createPayment_def Payment_create_def Payment_validate_def check_required_def
          check_min_def check_enum_def payment_modes_def payment_statuses_def
          payment_post_save_def scenarioA_payment_def scenarioA_db_def Let_def)
  have s: "map_option (\<lambda>s. (totalFees s, paidAmount s, pendingAmount s))
        (Student_findById (snd (createPayment scenarioA_db scenarioA_payment ''admin'' 9)) 1)
       = Some (Some 10000, Some 0, Some 10000)"
    unfolding c by (simp add: Student_findById_def scenarioA_db_def scenarioA_student_def)
  have e: "map_option (\<lambda>e. (fees_total e, fees_paid e, fees_pending e))
        (Enrollment_findById (snd (createPayment scenarioA_db scenarioA_payment ''admin'' 9)) 5)
       = Some (10000, 0, 10000)"
    unfolding c by (simp add: Enrollment_findById_def scenarioA_db_def scenarioA_enrollment_def)
  have u: "updatePayment scenarioA_db 1 4000 ''cash'' None [] 9 0 =
     (server_error,
      scenarioA_db\<lparr>Students := [scenarioA_student\<lparr>paidAmount := Some 4000,
                                                  pendingAmount := Some 6000\<rparr>]\<rparr>)"
    by (simp add: updatePayment_def Student_findById_def scenarioA_db_def scenarioA_student_def
          student_updatePayment_def Student_save_def student_store_def student_pre_save_def
          ledger_valid_def pay_installment_def js_add_def js_sub_def put_doc_def Let_def
          Payment_create_without_paymentId)
  have u1: "fst (updatePayment scenarioA_db 1 4000 ''cash'' None [] 9 0) = respond 500 ''Server error''"
    unfolding u by (simp add: server_error_def)
  have u2: "Payments (snd (updatePayment scenarioA_db 1 4000 ''cash'' None [] 9 0)) = []"
    unfolding u by (simp add: scenarioA_db_def)
  have u3: "map_option (\<lambda>s. (totalFees s, paidAmount s, pendingAmount s))
        (Student_findById (snd (updatePayment scenarioA_db 1 4000 ''cash'' None [] 9 0)) 1)
       = Some (Some 10000, Some 4000, Some 6000)"
    unfolding u by (simp add: Student_findById_def scenarioA_db_def scenarioA_student_def)
  from c s e u1 u2 u3 show ?thesis by (intro conjI)
qed

subsection \<open>Recount of the course statistics\<close>

lemma find_update_first_map:
  "(\<And>x. Q x \<Longrightarrow> Q (f x)) \<Longrightarrow> find Q (update_first Q f xs) = map_option f (find Q xs)"
  by (induction xs) auto

lemma count_list_map_filter: "count_list (map f xs) k = length (filter (\<lambda>x. f x = k) xs)"
  by (induction xs) auto

lemma sum_list_count_remdups: "sum_list (map (count_list xs) (remdups xs)) = length xs"
proof -
  have "sum_list (map (count_list xs) (remdups xs)) = sum (count_list xs) (set (remdups xs))"
    by (rule sum_list_distinct_conv_sum_set) simp
  also have "\<dots> = length xs"
    by (simp add: sum_count_set)
  finally show ?thesis .
qed

lemma foldl_tally:
  "distinct ks \<Longrightarrow>
   foldl tally acc (map (\<lambda>k. (k, c k)) ks) =
     \<lparr>totalEnrolled = totalEnrolled acc + sum_list (map c ks),
      active = (if ''active'' \<in> set ks then c ''active'' else active acc),
      completed = (if ''completed'' \<in> set ks then c ''completed'' else completed acc),
      dropout = (if ''dropped'' \<in> set ks then c ''dropped'' else dropout acc)\<rparr>"
proof (induction ks arbitrary: acc)
  case Nil
  then show ?case by simp
next
  case (Cons k ks)
  then show ?case
    by (auto simp: tally_def Let_def)
qed

lemma tally_all_recount: "tally_all (aggregate_by_status d (ObjectId cid)) = recount d cid"
proof -
  let ?xs = "map e_status (filter (\<lambda>e. e_course e = cid) (Enrollments d))"
  have m: "match_course (ObjectId cid) = (\<lambda>e. e_course e = cid)"
    by (rule ext) simp
  have absent: "count_list ?xs k = 0" if "k \<notin> set ?xs" for k
    using that by (simp add: count_notin)
  have "tally_all (aggregate_by_status d (ObjectId cid)) =
      \<lparr>totalEnrolled = length ?xs, active = count_list ?xs ''active'',
       completed = count_list ?xs ''completed'', dropout = count_list ?xs ''dropped''\<rparr>"
    unfolding tally_all_def aggregate_by_status_def Let_def m
    by (subst foldl_tally) (simp_all add: sum_list_count_remdups absent)
  then show ?thesis
    by (simp add: recount_def Let_def count_list_map_filter)
qed

lemma tally_all_string:
  "tally_all (aggregate_by_status d (HexString cid))
     = \<lparr>totalEnrolled = 0, active = 0, completed = 0, dropout = 0\<rparr>"
proof -
  have "match_course (HexString cid) = (\<lambda>e. False)"
    by (rule ext) simp
  then show ?thesis
    by (simp add: tally_all_def aggregate_by_status_def)
qed

text \<open>
  When the course is given as an ObjectId, as by \<^verbatim>\<open>updateEnrollment\<close> and by the method of the
  Course schema, the statistics stored are the recount over the enrollments that reference the
  course; for Scenario E they are 3, 2, 1 and 0.
\<close>

lemma enrollmentStats_recount_ObjectId:
  "Course_findById (updateCourseEnrollmentStats d (ObjectId courseId)) courseId
     = map_option (\<lambda>c. c\<lparr>enrollmentStats := recount d courseId\<rparr>) (Course_findById d courseId)"
  "fst (course_updateEnrollmentStats d c) = c\<lparr>enrollmentStats := recount d (c_id c)\<rparr>"
  "Course_findById (snd (course_updateEnrollmentStats d c)) (c_id c)
     = Some (c\<lparr>enrollmentStats := recount d (c_id c)\<rparr>)"
proof -
  show "Course_findById (updateCourseEnrollmentStats d (ObjectId courseId)) courseId
     = map_option (\<lambda>c. c\<lparr>enrollmentStats := recount d courseId\<rparr>) (Course_findById d courseId)"
    by (simp add: updateCourseEnrollmentStats_def Course_findById_def Let_def tally_all_recount
          find_update_first_map)
  show "fst (course_updateEnrollmentStats d c) = c\<lparr>enrollmentStats := recount d (c_id c)\<rparr>"
    by (simp add: course_updateEnrollmentStats_def Let_def tally_all_recount)
  show "Course_findById (snd (course_updateEnrollmentStats d c)) (c_id c)
       = Some (c\<lparr>enrollmentStats := recount d (c_id c)\<rparr>)"
    using find_put_doc [of c_id "c\<lparr>enrollmentStats := recount d (c_id c)\<rparr>" "Courses d"]
    by (simp add: course_updateEnrollmentStats_def Course_findById_def Let_def tally_all_recount)
qed

lemma scenarioE_recount:
  "recount scenarioE_db 3 = \<lparr>totalEnrolled = 3, active = 2, completed = 1, dropout = 0\<rparr>"
  "map_option enrollmentStats
     (Course_findById (updateCourseEnrollmentStats scenarioE_db (ObjectId 3)) 3)
     = Some \<lparr>totalEnrolled = 3, active = 2, completed = 1, dropout = 0\<rparr>"
proof -
  show rc: "recount scenarioE_db 3 = \<lparr>totalEnrolled = 3, active = 2, completed = 1, dropout = 0\<rparr>"
    by (simp add: recount_def scenarioE_db_def scenarioE_enrollment_def)
  have "\<exists>c. Course_findById scenarioE_db 3 = Some c"
    by (simp add: Course_findById_def scenarioE_db_def)
  then show "map_option enrollmentStats
     (Course_findById (updateCourseEnrollmentStats scenarioE_db (ObjectId 3)) 3)
     = Some \<lparr>totalEnrolled = 3, active = 2, completed = 1, dropout = 0\<rparr>"
    unfolding enrollmentStats_recount_ObjectId(1) [of scenarioE_db 3] rc by auto
qed

text \<open>
  When the course is given as the string of a request body, the statistics stored are all 0.
\<close>

lemma enrollmentStats_string:
  "Course_findById (updateCourseEnrollmentStats d (HexString courseId)) courseId
     = map_option (\<lambda>c. c\<lparr>enrollmentStats :=
                           \<lparr>totalEnrolled = 0, active = 0, completed = 0, dropout = 0\<rparr>\<rparr>)
         (Course_findById d courseId)"
  by (simp add: updateCourseEnrollmentStats_def Course_findById_def Let_def tally_all_string
        find_update_first_map)

text \<open>
  C7. After the recomputation the enrollment statistics of a course should be the recount over
  the enrollments that reference it. The course of Scenario E has two active enrollments and
  one completed, and statistics 3, 2, 1 and 0. Enrolling a fourth student by
  \<open>createEnrollment\<close> is answered with 201 and recomputes the statistics: they are stored as
  0, 0, 0 and 0, where the recount over the four enrollments is 4, 2, 1 and 0.
\<close>

theorem createEnrollment_zeroes_enrollmentStats:
  "map_option enrollmentStats (Course_findById scenarioE_db 3)
     = Some \<lparr>totalEnrolled = 3, active = 2, completed = 1, dropout = 0\<rparr>
   \<and> fst (createEnrollment scenarioE_db scenarioE_body)
       = respond 201 ''Enrollment created successfully''
   \<and> map_option enrollmentStats
        (Course_findById (snd (createEnrollment scenarioE_db scenarioE_body)) 3)
       = Some \<lparr>totalEnrolled = 0, active = 0, completed = 0, dropout = 0\<rparr>
   \<and> recount (snd (createEnrollment scenarioE_db scenarioE_body)) 3
       = \<lparr>totalEnrolled = 4, active = 2, completed = 1, dropout = 0\<rparr>"
proof -
  have c: "createEnrollment scenarioE_db scenarioE_body =
     (respond 201 ''Enrollment created successfully'',
      scenarioE_db
        \<lparr>Enrollments := Enrollments scenarioE_db @ [scenarioE_body\<lparr>e_id := 20, fees_pending := 5000\<rparr>],
         Courses := [\<lparr>c_id = 3, curriculum = [],
                      enrollmentStats = \<lparr>totalEnrolled = 0, active = 0, completed = 0, dropout = 0\<rparr>\<rparr>],
         next_oid := 21\<rparr>)"
    by (simp add: createEnrollment_def existingEnrollment_def batch_is_full_def
          scenarioE_db_def scenarioE_body_def scenarioE_enrollment_def
          Enrollment_create_def Enrollment_validate_def check_required_def check_enum_def
          check_min_def check_max_def enrollment_statuses_def duplicate_enrollment_def
          enrollment_pre_save_def Course_findById_def Let_def
          updateCourseEnrollmentStats_def tally_all_string)
  have a: "map_option enrollmentStats (Course_findById scenarioE_db 3)
     = Some \<lparr>totalEnrolled = 3, active = 2, completed = 1, dropout = 0\<rparr>"
    by (simp add: Course_findById_def scenarioE_db_def)
  have r: "fst (createEnrollment scenarioE_db scenarioE_body)
       = respond 201 ''Enrollment created successfully''"
    unfolding c by simp
  have s: "map_option enrollmentStats
        (Course_findById (snd (createEnrollment scenarioE_db scenarioE_body)) 3)
       = Some \<lparr>totalEnrolled = 0, active = 0, completed = 0, dropout = 0\<rparr>"
    unfolding c by (simp add: Course_findById_def)
  have n: "recount (snd (createEnrollment scenarioE_db scenarioE_body)) 3
       = \<lparr>totalEnrolled = 4, active = 2, completed = 1, dropout = 0\<rparr>"
    unfolding c
    by (simp add: recount_def scenarioE_db_def scenarioE_enrollment_def scenarioE_body_def)
  from a r s n show ?thesis by (intro conjI)
qed

subsection \<open>Module completion\<close>

lemma find_index_None: "find_index P xs = None \<longleftrightarrow> \<not> list_ex P xs"
  by (induction xs) auto

lemma find_index_Some:
  "find_index P xs = Some i \<Longrightarrow> i < length xs \<and> P (xs ! i) \<and> find P xs = Some (xs ! i)"
  by (induction xs arbitrary: i) (auto split: if_splits)

lemma find_list_update:
  "find_index P xs = Some i \<Longrightarrow> P y \<Longrightarrow> find P (xs[i := y]) = Some y"
  by (induction xs arbitrary: i) (auto split: if_splits)

lemma filter_list_update_same:
  "i < length xs \<Longrightarrow> P (xs ! i) \<Longrightarrow> P y \<Longrightarrow> length (filter P (xs[i := y])) = length (filter P xs)"
proof (induction xs arbitrary: i)
  case Nil
  then show ?case by simp
next
  case (Cons x xs)
  then show ?case by (cases i) auto
qed

lemma find_append_new:
  "\<not> list_ex P xs \<Longrightarrow> P y \<Longrightarrow> find P (xs @ [y]) = Some y"
  by (induction xs) auto

lemma filter_none: "\<not> list_ex P xs \<Longrightarrow> filter P xs = []"
  by (induction xs) auto

lemma completedModules_pre_save:
  "completedModules (enrollment_pre_save d e) = completedModules e"
  by (simp add: enrollment_pre_save_def Let_def split: option.split)

lemma completeModule_modules:
  "completedModules (fst (completeModule d e mid sc now)) =
     (case find_index (\<lambda>m. moduleId m = mid) (completedModules e) of
        Some i \<Rightarrow> (completedModules e)
                    [i := \<lparr>moduleId = cast_ObjectId mid, completedAt = now, score = sc\<rparr>]
      | None \<Rightarrow> completedModules e
                  @ [\<lparr>moduleId = cast_ObjectId mid, completedAt = now, score = sc\<rparr>])"
  by (simp add: completeModule_def enrollment_store_def Let_def completedModules_pre_save
        split: option.split)

lemma completeModule_percentage:
  "Course_findById d (e_course e) = Some c \<Longrightarrow>
   progress_percentage (fst (completeModule d e mid sc now)) =
     (if 0 < length (curriculum c)
      then js_percent (length (completedModules (fst (completeModule d e mid sc now))))
             (length (curriculum c))
      else 0)"
  by (simp add: completeModule_def enrollment_store_def enrollment_pre_save_def Let_def
        split: option.split)

lemma completeModule_stored:
  "Enrollment_findById (snd (completeModule d e mid sc now)) (e_id e)
     = Some (fst (completeModule d e mid sc now))"
proof -
  have id: "e_id (fst (completeModule d e mid sc now)) = e_id e"
    by (simp add: completeModule_def enrollment_store_def enrollment_pre_save_def Let_def
          split: option.split)
  have "Enrollments (snd (completeModule d e mid sc now))
      = put_doc e_id (fst (completeModule d e mid sc now)) (Enrollments d)"
    by (simp add: completeModule_def enrollment_store_def Let_def split: option.split)
  then show ?thesis
    using find_put_doc [of e_id "fst (completeModule d e mid sc now)" "Enrollments d"] id
    by (simp add: Enrollment_findById_def)
qed

text \<open>
  For a module identifier sent in the form in which identifiers are stored, in lower case,
  marking a module complete is an upsert: when the identifier is already in the list the
  record at its first occurrence is replaced and the length stays, otherwise one record is
  appended; either way the record found under the identifier is the new one and no further
  record with that identifier appears.
\<close>

lemma completeModule_upsert_lower_case:
  assumes "cast_ObjectId mid = mid"
  shows "length (completedModules (fst (completeModule d e mid sc now)))
     = (if list_ex (\<lambda>m. moduleId m = mid) (completedModules e)
        then length (completedModules e) else length (completedModules e) + 1)"
    and "length (filter (\<lambda>m. moduleId m = mid) (completedModules (fst (completeModule d e mid sc now))))
     = max 1 (length (filter (\<lambda>m. moduleId m = mid) (completedModules e)))"
    and "find (\<lambda>m. moduleId m = mid) (completedModules (fst (completeModule d e mid sc now)))
     = Some \<lparr>moduleId = mid, completedAt = now, score = sc\<rparr>"
proof -
  let ?P = "\<lambda>m. moduleId m = mid"
  let ?mc = "\<lparr>moduleId = mid, completedAt = now, score = sc\<rparr>"
  let ?ms = "completedModules e"
  let ?ms' = "completedModules (fst (completeModule d e mid sc now))"
  show "length ?ms' = (if list_ex ?P ?ms then length ?ms else length ?ms + 1)"
    and "length (filter ?P ?ms') = max 1 (length (filter ?P ?ms))"
    and "find ?P ?ms' = Some ?mc"
  proof (atomize (full), cases "find_index ?P ?ms")
    case None
    then have no: "\<not> list_ex ?P ?ms" by (simp add: find_index_None)
    then show "length ?ms' = (if list_ex ?P ?ms then length ?ms else length ?ms + 1) \<and>
      length (filter ?P ?ms') = max 1 (length (filter ?P ?ms)) \<and> find ?P ?ms' = Some ?mc"
      using None assms by (simp add: completeModule_modules filter_none find_append_new)
  next
    case (Some i)
    then have i: "i < length ?ms" "?P (?ms ! i)"
      using find_index_Some [of ?P ?ms i] by simp_all
    then have ex: "list_ex ?P ?ms"
      by (auto simp: list_ex_iff)
    have "filter ?P ?ms \<noteq> []"
      using ex by (auto simp: list_ex_iff filter_empty_conv)
    then have "max 1 (length (filter ?P ?ms)) = length (filter ?P ?ms)"
      by (cases "filter ?P ?ms") simp_all
    then show "length ?ms' = (if list_ex ?P ?ms then length ?ms else length ?ms + 1) \<and>
      length (filter ?P ?ms') = max 1 (length (filter ?P ?ms)) \<and> find ?P ?ms' = Some ?mc"
      using Some i ex assms
      by (simp add: completeModule_modules filter_list_update_same find_list_update)
  qed
qed

lemma js_percent_1_4: "js_percent (Suc 0) 4 = 25"
  by code_simp

lemma js_percent_2_4: "js_percent (Suc (Suc 0)) 4 = 50"
  by code_simp

lemma cast_module_A: "cast_ObjectId module_A = module_a"
  by (simp add: cast_ObjectId_def lower_hex_def module_A_def module_a_def)

lemma cast_module_a: "cast_ObjectId module_a = module_a"
  by (simp add: cast_ObjectId_def lower_hex_def module_a_def)

lemma cast_module_b: "cast_ObjectId module_b = module_b"
  by (simp add: cast_ObjectId_def lower_hex_def module_b_def)

lemma module_names_differ: "module_a \<noteq> module_A" "module_a \<noteq> module_b"
  by (simp_all add: module_a_def module_A_def module_b_def)

lemma updateProgress_scenarioM:
  "map_option (\<lambda>e. (map moduleId (completedModules e), progress_percentage e))
     (Enrollment_findById (snd (updateProgress scenarioM_db 5 mid sc now)) 5)
   = Some (map moduleId (completedModules (fst (completeModule scenarioM_db scenarioM_enrollment mid sc now))),
           js_percent (length (completedModules
                        (fst (completeModule scenarioM_db scenarioM_enrollment mid sc now)))) 4)"
proof -
  have f: "Enrollment_findById scenarioM_db 5 = Some scenarioM_enrollment"
    by (simp add: Enrollment_findById_def scenarioM_db_def scenarioM_enrollment_def)
  have i: "e_id scenarioM_enrollment = 5"
    by (simp add: scenarioM_enrollment_def)
  have c: "Course_findById scenarioM_db (e_course scenarioM_enrollment) = Some scenarioM_course"
    by (simp add: Course_findById_def scenarioM_db_def scenarioM_enrollment_def scenarioM_course_def)
  have cur: "length (curriculum scenarioM_course) = 4"
    by (simp add: scenarioM_course_def)
  show ?thesis
    using completeModule_stored [of scenarioM_db scenarioM_enrollment mid sc now]
      completeModule_percentage [OF c, of mid sc now]
    by (simp add: updateProgress_def f i cur)
qed

text \<open>
  C8. Marking a module complete should be an upsert keyed by the module identifier. The
  enrollment of the example has completed one of the four modules of its course, stored under
  the identifier \<open>aaaaaaaaaaaaaaaaaaaaaaaa\<close>, and stands at 25 percent. Marking the same module
  again with its identifier written in upper case, which the route accepts and which is cast
  to the same ObjectId, is answered with 200 and appends a second record with the same
  identifier: two records and 50 percent. With the identifier in lower case the record is
  replaced, and another identifier appends.
\<close>

theorem completeModule_duplicates_upper_case:
  "cast_ObjectId module_A = module_a
   \<and> map_option (\<lambda>e. (map moduleId (completedModules e), progress_percentage e))
        (Enrollment_findById scenarioM_db 5) = Some ([module_a], 25)
   \<and> fst (updateProgress scenarioM_db 5 module_A None 9)
       = respond 200 ''Progress updated successfully''
   \<and> map_option (\<lambda>e. (map moduleId (completedModules e), progress_percentage e))
        (Enrollment_findById (snd (updateProgress scenarioM_db 5 module_A None 9)) 5)
       = Some ([module_a, module_a], 50)
   \<and> map_option (\<lambda>e. (map moduleId (completedModules e), progress_percentage e))
        (Enrollment_findById (snd (updateProgress scenarioM_db 5 module_a None 9)) 5)
       = Some ([module_a], 25)
   \<and> map_option (\<lambda>e. (map moduleId (completedModules e), progress_percentage e))
        (Enrollment_findById (snd (updateProgress scenarioM_db 5 module_b None 9)) 5)
       = Some ([module_a, module_b], 50)"
proof -
  have s: "map_option (\<lambda>e. (map moduleId (completedModules e), progress_percentage e))
        (Enrollment_findById scenarioM_db 5) = Some ([module_a], 25)"
    by (simp add: Enrollment_findById_def scenarioM_db_def scenarioM_enrollment_def)
  have r: "fst (updateProgress scenarioM_db 5 module_A None 9)
       = respond 200 ''Progress updated successfully''"
    by (simp add: updateProgress_def Enrollment_findById_def scenarioM_db_def
          scenarioM_enrollment_def)
  have ms: "completedModules scenarioM_enrollment
      = [\<lparr>moduleId = module_a, completedAt = 2, score = None\<rparr>]"
    by (simp add: scenarioM_enrollment_def)
  have u: "map_option (\<lambda>e. (map moduleId (completedModules e), progress_percentage e))
        (Enrollment_findById (snd (updateProgress scenarioM_db 5 module_A None 9)) 5)
       = Some ([module_a, module_a], 50)"
    using module_names_differ
    by (simp add: updateProgress_scenarioM completeModule_modules ms cast_module_A js_percent_2_4)
  have l: "map_option (\<lambda>e. (map moduleId (completedModules e), progress_percentage e))
        (Enrollment_findById (snd (updateProgress scenarioM_db 5 module_a None 9)) 5)
       = Some ([module_a], 25)"
    by (simp add: updateProgress_scenarioM completeModule_modules ms cast_module_a js_percent_1_4)
  have b: "map_option (\<lambda>e. (map moduleId (completedModules e), progress_percentage e))
        (Enrollment_findById (snd (updateProgress scenarioM_db 5 module_b None 9)) 5)
       = Some ([module_a, module_b], 50)"
    using module_names_differ
    by (simp add: updateProgress_scenarioM completeModule_modules ms cast_module_b js_percent_2_4)
  from cast_module_A s r u l b show ?thesis by (intro conjI)
qed

subsection \<open>Rejected enrollments\<close>

lemma existingEnrollment_None:
  "existingEnrollment d s c = None \<longleftrightarrow>
     \<not> list_ex (\<lambda>e. e_student e = s \<and> e_course e = c \<and>
                     (e_status e = ''pending'' \<or> e_status e = ''active'')) (Enrollments d)"
  by (auto simp: existingEnrollment_def find_None_iff list_ex_iff)

text \<open>
  A second enrollment for a student and course with an active enrollment is answered with
  status 400, the status of every rejection by these controllers, and not with a Conflict (409).
\<close>

theorem duplicate_enrollment_not_conflict:
  "fst (createEnrollment scenarioA_db scenarioA_enrollment) = respond 400 already_enrolled_message
   \<and> code (fst (createEnrollment scenarioA_db scenarioA_enrollment)) \<noteq> Conflict"
  by (simp add: createEnrollment_def existingEnrollment_def scenarioA_db_def
        scenarioA_enrollment_def respond_def)

text \<open>
  C4 (amended). Creating an enrollment for a student and course that already have an enrollment
  in status pending or active is rejected with status 400 (BadRequest) and the message
  "Student is already enrolled or has a pending enrollment for this course", by
  \<open>createEnrollment\<close> and, for a student that exists, by \<open>enrollStudent\<close>; the store is left as
  it was, so no enrollment is created.
\<close>

theorem duplicate_enrollment_rejected:
  assumes "list_ex (\<lambda>e. e_student e = studentId \<and> e_course e = courseId \<and>
                        (e_status e = ''pending'' \<or> e_status e = ''active'')) (Enrollments d)"
  shows "(e_student body = studentId \<and> e_course body = courseId \<longrightarrow>
            createEnrollment d body = (respond BadRequest already_enrolled_message, d))
         \<and> (Student_findById d studentId \<noteq> None \<longrightarrow>
            enrollStudent d studentId courseId batchId feesTotal
              = (respond BadRequest already_enrolled_message, d))"
proof -
  have ex: "existingEnrollment d studentId courseId \<noteq> None"
    using assms by (simp add: existingEnrollment_None)
  have "s_id st = studentId" if "Student_findById d studentId = Some st" for st
    using that by (auto simp: Student_findById_def find_Some_iff)
  then show ?thesis
    using ex by (auto simp: createEnrollment_def enrollStudent_def)
qed

theorem duplicate_enrollment_rejected_witness:
  "list_ex (\<lambda>e. e_student e = 1 \<and> e_course e = 3 \<and>
                 (e_status e = ''pending'' \<or> e_status e = ''active'')) (Enrollments scenarioA_db)
   \<and> createEnrollment scenarioA_db scenarioA_enrollment
       = (respond BadRequest already_enrolled_message, scenarioA_db)
   \<and> enrollStudent scenarioA_db 1 3 None 5000
       = (respond BadRequest already_enrolled_message, scenarioA_db)"
proof -
  have h: "list_ex (\<lambda>e. e_student e = 1 \<and> e_course e = 3 \<and>
                 (e_status e = ''pending'' \<or> e_status e = ''active'')) (Enrollments scenarioA_db)"
    by (simp add: scenarioA_db_def scenarioA_enrollment_def)
  have s: "Student_findById scenarioA_db 1 \<noteq> None"
    by (simp add: Student_findById_def scenarioA_db_def scenarioA_student_def)
  have b: "e_student scenarioA_enrollment = 1 \<and> e_course scenarioA_enrollment = 3"
    by (simp add: scenarioA_enrollment_def)
  from duplicate_enrollment_rejected [OF h, of scenarioA_enrollment None 5000] h s b
  show ?thesis by simp
qed

text \<open>
  \<open>createEnrollment\<close> rejects a full batch in the same way, with its own message.
\<close>

lemma createEnrollment_full_batch:
  assumes "existingEnrollment d (e_student body) (e_course body) = None"
    and "e_batch body = Some batchId" and "Batch_findById d batchId = Some batch"
    and "maxStudents batch \<le> currentStudents batch"
  shows "createEnrollment d body = (respond BadRequest ''Selected batch is full'', d)"
  using assms by (simp add: createEnrollment_def batch_is_full_def)

text \<open>
  An enrollment without \<open>enrollmentId\<close> in the request is rejected with the text of the
  validator, and \<open>enrollStudent\<close>, which sends none, answers 500 for every new enrollment.
\<close>

lemma createEnrollment_without_enrollmentId:
  "createEnrollment scenarioB_db ((scenarioB_body (Some 8))\<lparr>e_enrollmentId := None\<rparr>)
     = (respond 400 ''Path `enrollmentId` is required.'', scenarioB_db)"
  by (simp add: createEnrollment_def existingEnrollment_def batch_is_full_def Batch_findById_def
        scenarioB_db_def scenarioB_body_def Enrollment_create_def Enrollment_validate_def
        check_required_def check_enum_def check_min_def check_max_def enrollment_statuses_def
        required_message_def)

lemma enrollStudent_never_enrolls:
  assumes "Student_findById d i = Some st" and "existingEnrollment d (s_id st) courseId = None"
  shows "enrollStudent d i courseId batchId feesTotal = (server_error, d)"
  using assms by (simp add: enrollStudent_def Let_def Enrollment_create_without_enrollmentId)

text \<open>
  C5. Adding a student to a batch whose \<open>currentStudents\<close> has reached \<open>maxStudents\<close> is
  rejected with BadRequest "Batch is full", and the store, with the counter and the roster of
  the batch, is left as it was. For a batch of two seats, both taken, the counter stays 2.
\<close>

theorem full_batch_rejected:
  assumes "Batch_findById d batchId = Some batch"
    and "Student_findById d studentId = Some student"
    and "maxStudents batch \<le> currentStudents batch"
  shows "addStudentToBatch d batchId studentId now = (respond BadRequest ''Batch is full'', d)"
  using assms by (simp add: addStudentToBatch_def)

theorem full_batch_rejected_witness:
  "map_option (\<lambda>b. (maxStudents b, currentStudents b)) (Batch_findById scenarioB_db 7) = Some (2, 2)
   \<and> Student_findById scenarioB_db 3 = Some (scenarioB_student 3 ''5550103'')
   \<and> addStudentToBatch scenarioB_db 7 3 9 = (respond BadRequest ''Batch is full'', scenarioB_db)
   \<and> map_option currentStudents (Batch_findById (snd (addStudentToBatch scenarioB_db 7 3 9)) 7) = Some 2"
proof -
  obtain b where b: "Batch_findById scenarioB_db 7 = Some b" "maxStudents b = 2" "currentStudents b = 2"
    by (simp add: Batch_findById_def scenarioB_db_def)
  have s: "Student_findById scenarioB_db 3 = Some (scenarioB_student 3 ''5550103'')"
    by (simp add: Student_findById_def scenarioB_db_def scenarioB_student_def)
  from full_batch_rejected [OF b(1) s, of 9] b s show ?thesis by simp
qed

subsection \<open>Seats of a batch\<close>

lemma seats_start: "list_all seats_consistent (Batches scenarioB_db)"
  by (simp add: scenarioB_db_def seats_consistent_def active_roster_def scenarioB_roster_def)

lemma findById_b_id: "Batch_findById d bid = Some b \<Longrightarrow> b_id b = bid"
  by (auto simp: Batch_findById_def find_Some_iff)

text \<open>
  The two batch endpoints keep the counter equal to the number of active roster entries:
  a successful add appends an active entry and counts it, never beyond \<open>maxStudents\<close>; a
  successful remove takes one entry out and counts down, not below 0.
\<close>

lemma addStudentToBatch_seats:
  assumes "Batch_findById d bid = Some b" and "seats_consistent b"
    and "code (fst (addStudentToBatch d bid sid now)) = 200"
  shows "\<exists>b'. Batch_findById (snd (addStudentToBatch d bid sid now)) bid = Some b'
           \<and> seats_consistent b' \<and> currentStudents b' = currentStudents b + 1
           \<and> 0 \<le> currentStudents b' \<and> currentStudents b' \<le> maxStudents b'"
proof -
  let ?b' = "b\<lparr>b_students := b_students b @
                 [\<lparr>r_student = sid, r_enrollmentDate = now, r_status = ''active'',
                   r_attendancePercentage = None\<rparr>],
               currentStudents := currentStudents b + 1\<rparr>"
  from assms(1,3) have room: "currentStudents b < maxStudents b"
    and res: "snd (addStudentToBatch d bid sid now) = d\<lparr>Batches := put_doc b_id ?b' (Batches d)\<rparr>"
    by (auto simp: addStudentToBatch_def respond_def server_error_def Let_def
             split: option.splits if_splits)
  have "Batch_findById (snd (addStudentToBatch d bid sid now)) bid = Some ?b'"
    using find_put_doc [of b_id ?b' "Batches d"] findById_b_id [OF assms(1)] res
    by (simp add: Batch_findById_def)
  moreover have "seats_consistent ?b'" "0 \<le> currentStudents ?b'"
    using assms(2) by (simp_all add: seats_consistent_def active_roster_def)
  ultimately show ?thesis using room by simp
qed

lemma removeStudentFromBatch_seats:
  assumes "Batch_findById d bid = Some b" and "seats_consistent b"
    and "list_all (\<lambda>s. r_status s = ''active'') (b_students b)"
    and "code (fst (removeStudentFromBatch d bid sid)) = 200"
  shows "\<exists>b'. Batch_findById (snd (removeStudentFromBatch d bid sid)) bid = Some b'
           \<and> seats_consistent b' \<and> 0 \<le> currentStudents b'"
proof -
  from assms(1,4) obtain i where i: "find_index (\<lambda>s. r_student s = sid) (b_students b) = Some i"
    by (auto simp: removeStudentFromBatch_def respond_def split: option.splits)
  let ?b' = "b\<lparr>b_students := splice1 i (b_students b),
               currentStudents := max 0 (currentStudents b - 1)\<rparr>"
  have lt: "i < length (b_students b)"
    using find_index_Some [OF i] by simp
  have all: "filter (\<lambda>s. r_status s = ''active'') xs = xs"
    if "list_all (\<lambda>s. r_status s = ''active'') xs" for xs :: "roster_entry list"
    using that by (induction xs) auto
  have "list_all (\<lambda>s. r_status s = ''active'') (splice1 i (b_students b))"
    using assms(3) by (auto simp: splice1_def list_all_iff dest: in_set_takeD in_set_dropD)
  then have "active_roster ?b' = length (b_students b) - 1"
    using lt by (simp add: active_roster_def all splice1_def)
  moreover have "currentStudents b = int (length (b_students b))"
    using assms(2,3) by (simp add: seats_consistent_def active_roster_def all)
  ultimately have "seats_consistent ?b'" "0 \<le> currentStudents ?b'"
    using lt by (simp_all add: seats_consistent_def)
  moreover have "Batch_findById (snd (removeStudentFromBatch d bid sid)) bid = Some ?b'"
    using find_put_doc [of b_id ?b' "Batches d"] findById_b_id [OF assms(1)] assms(1) i
    by (simp add: removeStudentFromBatch_def Batch_findById_def Let_def)
  ultimately show ?thesis by blast
qed

text \<open>
  C3. After an operation that adds or removes students the counter \<open>currentStudents\<close> of a
  Batch should be the number of its active roster entries. In the store of the example every
  batch is so, and batch 8 has no student. Enrolling student 3 with batch 8 by
  \<open>createEnrollment\<close> is answered with 201 and raises the counter of the batch to 1 while its
  roster stays empty: the controller increments the counter and pushes no roster entry.
\<close>

theorem createEnrollment_counts_without_roster:
  "list_all seats_consistent (Batches scenarioB_db)
   \<and> map_option (\<lambda>b. (currentStudents b, b_students b, active_roster b))
        (Batch_findById scenarioB_db 8) = Some (0, [], 0)
   \<and> fst (createEnrollment scenarioB_db (scenarioB_body (Some 8)))
       = respond 201 ''Enrollment created successfully''
   \<and> map_option (\<lambda>b. (currentStudents b, b_students b, active_roster b))
        (Batch_findById (snd (createEnrollment scenarioB_db (scenarioB_body (Some 8)))) 8)
       = Some (1, [], 0)
   \<and> \<not> list_all seats_consistent
          (Batches (snd (createEnrollment scenarioB_db (scenarioB_body (Some 8)))))"
proof -
  have a: "map_option (\<lambda>b. (currentStudents b, b_students b, active_roster b))
        (Batch_findById scenarioB_db 8) = Some (0, [], 0)"
    by (simp add: Batch_findById_def scenarioB_db_def active_roster_def)
  have r: "fst (createEnrollment scenarioB_db (scenarioB_body (Some 8)))
       = respond 201 ''Enrollment created successfully''"
    unfolding createEnrollment_scenarioB by simp
  have b: "map_option (\<lambda>b. (currentStudents b, b_students b, active_roster b))
        (Batch_findById (snd (createEnrollment scenarioB_db (scenarioB_body (Some 8)))) 8)
       = Some (1, [], 0)"
    unfolding createEnrollment_scenarioB by (simp add: Batch_findById_def active_roster_def)
  have n: "\<not> list_all seats_consistent
          (Batches (snd (createEnrollment scenarioB_db (scenarioB_body (Some 8)))))"
    unfolding createEnrollment_scenarioB by (simp add: seats_consistent_def active_roster_def)
  from seats_start a r b n show ?thesis by (intro conjI)
qed

subsection \<open>Lead conversion\<close>

text \<open>
  A lead that is flagged as converted is rejected with BadRequest, and the conversion of a lead
  that is not flagged is answered with 500 and changes nothing: the Student built from the
  lead is rejected by the validation.
\<close>

lemma convertToStudent_flagged:
  assumes "Lead_findById d i = Some l" and "convertedToStudent l"
  shows "convertToStudent d i now = (respond BadRequest ''Lead already converted to student'', d)"
  using assms by (simp add: convertToStudent_def)

lemma convertToStudent_not_flagged:
  assumes "Lead_findById d i = Some l" and "\<not> convertedToStudent l"
  shows "convertToStudent d i now = (server_error, d)"
  using assms by (simp add: convertToStudent_def Let_def Student_create_without_studentId)

text \<open>
  C9. Converting a Lead that is not yet converted should create a Student and flag the Lead,
  and a second attempt should be rejected with BadRequest. The conversion of the lead of the
  example, which is not flagged, is answered with 500 "Server error" and leaves the store as
  it was: no Student is created and the Lead is not flagged. The Student data fail two
  validators. A second attempt is answered with 500 again.
\<close>

theorem convertToStudent_never_converts:
  "Lead_findById scenarioD_db 30 = Some scenarioD_lead
   \<and> convertedToStudent scenarioD_lead = False
   \<and> convertToStudent scenarioD_db 30 9 = (respond 500 ''Server error'', scenarioD_db)
   \<and> convertToStudent (snd (convertToStudent scenarioD_db 30 9)) 30 10
       = (respond 500 ''Server error'', scenarioD_db)
   \<and> Student_validate
        \<lparr>s_id = 0, s_studentId = None, fullName = l_fullName scenarioD_lead,
         phone = l_phone scenarioD_lead, email = l_email scenarioD_lead,
         admissionType = ''lead_conversion'', leadSource = Some 30, s_enrollments = [],
         totalFees = None, paidAmount = Some 0, pendingAmount = Some 0, paymentSchedule = []\<rparr>
       = [''Path `studentId` is required.'', ''Path `paymentPlan.totalFees` is required.'']"
proof -
  have l: "Lead_findById scenarioD_db 30 = Some scenarioD_lead"
    by (simp add: Lead_findById_def scenarioD_db_def scenarioD_lead_def)
  have f: "convertedToStudent scenarioD_lead = False"
    by (simp add: scenarioD_lead_def)
  have c: "convertToStudent scenarioD_db 30 9 = (respond 500 ''Server error'', scenarioD_db)"
    using l f by (simp add: convertToStudent_def Let_def Student_create_without_studentId
        server_error_def)
  have c2: "convertToStudent (snd (convertToStudent scenarioD_db 30 9)) 30 10
       = (respond 500 ''Server error'', scenarioD_db)"
    unfolding c using l f
    by (simp add: convertToStudent_def Let_def Student_create_without_studentId server_error_def)
  have v: "Student_validate
        \<lparr>s_id = 0, s_studentId = None, fullName = l_fullName scenarioD_lead,
         phone = l_phone scenarioD_lead, email = l_email scenarioD_lead,
         admissionType = ''lead_conversion'', leadSource = Some 30, s_enrollments = [],
         totalFees = None, paidAmount = Some 0, pendingAmount = Some 0, paymentSchedule = []\<rparr>
       = [''Path `studentId` is required.'', ''Path `paymentPlan.totalFees` is required.'']"
    by (simp add: Student_validate_def check_required_def required_message_def check_min_def
          scenarioD_lead_def)
  from l f c c2 v show ?thesis by (intro conjI)
qed

subsection \<open>Rounding of percentages\<close>

lemma round_ties_even_error: "\<bar>of_int (round_ties_even x) - x\<bar> \<le> 1 / 2"
proof -
  define f where "f = \<lfloor>x\<rfloor>"
  have fl: "of_int f \<le> x" "x < of_int f + 1"
    unfolding f_def by linarith+
  have r: "round_ties_even x =
      (if x - of_int f < 1 / 2 then f else if 1 / 2 < x - of_int f then f + 1
       else if even f then f else f + 1)"
    by (simp add: round_ties_even_def Let_def f_def)
  show ?thesis
    unfolding r using fl by (auto simp: abs_if)
qed

lemma binary_exponent_le:
  assumes "0 < x"
  shows "2 powi (binary_exponent x) \<le> x"
proof -
  obtain a b where q: "quotient_of x = (a, b)" by (cases "quotient_of x")
  then have x: "x = of_int a / of_int b" and b: "0 < b"
    by (simp_all add: quotient_of_div quotient_of_denom_pos)
  with assms have a: "0 < a"
    by (simp add: zero_less_divide_iff)
  let ?la = "bitlen a" and ?lb = "bitlen b"
  have la: "2 ^ nat (?la - 1) \<le> a" and lb: "b < 2 ^ nat ?lb"
    using bitlen_bounds [OF a] bitlen_bounds [OF b] by simp_all
  have la1: "1 \<le> ?la" and lb1: "1 \<le> ?lb"
    using a b by (simp_all add: bitlen_ge_iff_power)
  have "(2::rat) powi (?la - ?lb - 1) = 2 powi (?la - 1) / 2 powi ?lb"
    by (simp add: power_int_diff)
  also have "\<dots> = 2 ^ nat (?la - 1) / 2 ^ nat ?lb"
    using la1 lb1 by (simp add: power_int_def)
  also have "\<dots> \<le> of_int a / of_int b"
  proof (rule frac_le)
    show "(2::rat) ^ nat (?la - 1) \<le> of_int a"
      using la by (metis of_int_le_iff of_int_numeral of_int_power)
    show "(of_int b :: rat) \<le> 2 ^ nat ?lb"
      using lb by (metis less_imp_le of_int_le_iff of_int_numeral of_int_power)
  qed (use a b in simp_all)
  finally have "(2::rat) powi (?la - ?lb - 1) \<le> x"
    using x by simp
  then show ?thesis
    using q by (simp add: binary_exponent_def Let_def)
qed

lemma to_double_error:
  assumes "0 < x"
  shows "\<bar>to_double x - x\<bar> \<le> x / 2 ^ 53"
proof -
  let ?e = "binary_exponent x"
  let ?m = "x * 2 powi (52 - ?e)"
  have pos: "(0::rat) < 2 powi (?e - 52)" by simp
  have inv: "(2::rat) powi (52 - ?e) * 2 powi (?e - 52) = 1"
    by (simp flip: power_int_add)
  have "to_double x - x = (of_int (round_ties_even ?m) - ?m) * 2 powi (?e - 52)"
    using assms inv by (simp add: to_double_def Let_def algebra_simps)
  then have "\<bar>to_double x - x\<bar> = \<bar>of_int (round_ties_even ?m) - ?m\<bar> * 2 powi (?e - 52)"
    using pos by (simp add: abs_mult)
  also have "\<dots> \<le> 1 / 2 * 2 powi (?e - 52)"
    using round_ties_even_error [of ?m] pos by (intro mult_right_mono) simp_all
  also have "\<dots> = 2 powi ?e / 2 ^ 53"
    by (simp add: power_int_diff)
  also have "\<dots> \<le> x / 2 ^ 53"
    using binary_exponent_le [OF assms] by (simp add: divide_right_mono)
  finally show ?thesis .
qed

lemma to_double_0 [simp]: "to_double 0 = 0"
  by (simp add: to_double_def)

lemma to_double_pos:
  assumes "0 < x" shows "0 < to_double x"
proof -
  have "x / 2 ^ 53 < x" using assms by (simp add: field_simps)
  with to_double_error [OF assms] show ?thesis by linarith
qed

lemma percent_double_error:
  assumes "0 < n" and "p \<le> n"
  shows "\<bar>to_double (to_double (of_nat p / of_nat n) * 100) - 100 * of_nat p / of_nat n\<bar> < 1 / 2 ^ 45"
proof (cases "p = 0")
  case True
  then show ?thesis by simp
next
  case False
  define q :: rat where "q = of_nat p / of_nat n"
  define d1 where "d1 = to_double q"
  define d2 where "d2 = to_double (d1 * 100)"
  have q: "0 < q" "q \<le> 1"
    using assms False by (simp_all add: q_def)
  have e1: "\<bar>d1 - q\<bar> \<le> q / 2 ^ 53"
    unfolding d1_def by (rule to_double_error [OF q(1)])
  have d1: "0 < d1"
    unfolding d1_def by (rule to_double_pos [OF q(1)])
  have e2: "\<bar>d2 - d1 * 100\<bar> \<le> d1 * 100 / 2 ^ 53"
    unfolding d2_def using d1 by (intro to_double_error) simp
  have "q / 2 ^ 53 \<le> 1 / 2 ^ 53"
    using q by (intro divide_right_mono) simp_all
  with e1 q have d1u: "d1 \<le> 1 + 1 / 2 ^ 53"
    by linarith
  have "\<bar>d2 - 100 * q\<bar> \<le> \<bar>d2 - d1 * 100\<bar> + 100 * \<bar>d1 - q\<bar>"
    by (simp add: abs_le_iff abs_if)
  also have "\<dots> \<le> d1 * 100 / 2 ^ 53 + 100 * (q / 2 ^ 53)"
    using e1 e2 by (intro add_mono mult_left_mono) simp_all
  also have "\<dots> \<le> (1 + 1 / 2 ^ 53) * 100 / 2 ^ 53 + 100 * (1 / 2 ^ 53)"
    using d1u q by (intro add_mono mult_left_mono divide_right_mono mult_right_mono) simp_all
  also have "\<dots> < 1 / 2 ^ 45"
    by simp
  finally show ?thesis
    by (simp add: d2_def d1_def q_def)
qed

lemma js_percent_0: "js_percent 0 n = 0"
proof -
  have "\<lfloor>(1::rat) / 2\<rfloor> = 0" by (rule floor_unique) simp_all
  then show ?thesis by (simp add: js_percent_def Math_round_def)
qed

lemma js_percent_rounding:
  assumes "0 < n" and "p \<le> n" and "n \<le> 2 ^ 44"
  shows "(\<not> exact_half p n \<longrightarrow> js_percent p n = spec_percentage p n)
       \<and> (exact_half p n \<longrightarrow>
            js_percent p n = spec_percentage p n \<or> js_percent p n = spec_percentage p n - 1)"
proof -
  define N where "N = 200 * p + n"
  define M where "M = 2 * n"
  define k where "k = N div M"
  define r where "r = N mod M"
  define d where "d = to_double (to_double (of_nat p / of_nat n) * 100)"
  define y :: rat where "y = 100 * of_nat p / of_nat n + 1 / 2"
  have M: "0 < M" using assms(1) by (simp add: M_def)
  have yN: "y = of_nat N / of_nat M"
    using assms(1) by (simp add: y_def N_def M_def field_simps)
  have spec: "spec_percentage p n = int k"
    using assms(1) by (simp add: spec_percentage_def k_def flip: y_def) (simp add: yN floor_divide_of_nat_eq)
  have js: "js_percent p n = \<lfloor>d + 1 / 2\<rfloor>"
    by (simp add: js_percent_def Math_round_def d_def)
  have err: "\<bar>d - (y - 1 / 2)\<bar> < 1 / 2 ^ 45"
    using percent_double_error [OF assms(1,2)] by (simp add: d_def y_def)
  have "of_nat N = (of_nat M * of_nat k + of_nat r :: rat)"
    unfolding k_def r_def by (metis of_nat_add of_nat_mult mult_div_mod_eq)
  then have yk: "y = of_nat k + of_nat r / of_nat M"
    using M by (simp add: yN field_simps)
  have Mle: "(of_nat M :: rat) \<le> 2 ^ 45"
  proof -
    have "M \<le> 2 ^ 45" using assms(3) by (simp add: M_def)
    then show ?thesis by (metis of_nat_le_iff of_nat_numeral of_nat_power)
  qed
  have unit: "(1 :: rat) / 2 ^ 45 \<le> 1 / of_nat M"
    using M Mle by (intro divide_left_mono) simp_all
  show ?thesis
  proof (cases "exact_half p n")
    case True
    then have "r = 0" by (simp add: exact_half_def r_def N_def M_def)
    then have "y = of_nat k" using yk by simp
    moreover have "(1::rat) / 2 ^ 45 \<le> 1" by simp
    moreover from err have "- (1 / 2 ^ 45) < d - (y - 1 / 2)" "d - (y - 1 / 2) < 1 / 2 ^ 45"
      by (simp_all only: abs_less_iff minus_diff_eq) linarith+
    ultimately have bounds: "rat_of_nat k - 1 \<le> d + 1 / 2" "d + 1 / 2 < rat_of_nat k + 1"
      by linarith+
    have "\<lfloor>d + 1 / 2\<rfloor> = int k \<or> \<lfloor>d + 1 / 2\<rfloor> = int k - 1"
    proof (cases "d + 1 / 2 < rat_of_nat k")
      case True
      with bounds(1) have "\<lfloor>d + 1 / 2\<rfloor> = int k - 1"
        by (intro floor_unique) simp_all
      then show ?thesis by simp
    next
      case False
      with bounds(2) have "\<lfloor>d + 1 / 2\<rfloor> = int k"
        by (intro floor_unique) simp_all
      then show ?thesis by simp
    qed
    then show ?thesis using True js spec by simp
  next
    case False
    then have r: "1 \<le> r" "r + 1 \<le> M"
      using M mod_less_divisor [of M N]
      by (simp_all add: exact_half_def r_def N_def M_def Suc_le_eq)
    have lo: "1 / of_nat M \<le> (of_nat r :: rat) / of_nat M"
      using r M by (intro divide_right_mono) simp_all
    have "(of_nat r :: rat) + 1 \<le> of_nat M"
      using r(2) by (metis of_nat_1 of_nat_add of_nat_le_iff)
    then have hi: "(of_nat r :: rat) / of_nat M \<le> 1 - 1 / of_nat M"
      using M by (simp add: field_simps)
    from err have "- (1 / 2 ^ 45) < d - (y - 1 / 2)" "d - (y - 1 / 2) < 1 / 2 ^ 45"
      by (simp_all only: abs_less_iff minus_diff_eq) linarith+
    then have "rat_of_nat k \<le> d + 1 / 2" "d + 1 / 2 < rat_of_nat k + 1"
      using unit lo hi yk by linarith+
    then have "\<lfloor>d + 1 / 2\<rfloor> = int k"
      by (intro floor_unique) simp_all
    then show ?thesis using False js spec by simp
  qed
qed

subsection \<open>Attendance percentage\<close>

lemma calculateAttendancePercentage_js:
  "calculateAttendancePercentage att =
     (if att = [] then 0 else js_percent (present_or_late att) (length att))"
  by (simp add: calculateAttendancePercentage_def present_or_late_def)

lemma present_or_late_le: "present_or_late att \<le> length att"
  by (simp add: present_or_late_def)

text \<open>
  C6 (amended). The \<open>attendancePercentage\<close> virtual of an Enrollment and the controller helper
  \<open>calculateAttendancePercentage\<close> agree, and give 0 for an empty list. For a list within the
  length of a JavaScript array they give the specified percentage, except where 100 times the
  count over the total lies exactly half way between two integers: there the double precision
  product gives either the specified value or one less.
\<close>

theorem attendance_percentage_sites:
  assumes "length att < 2 ^ 32"
  shows "attendancePercentage e = calculateAttendancePercentage (attendance e)
    \<and> calculateAttendancePercentage [] = 0
    \<and> (\<not> exact_half (present_or_late att) (length att) \<longrightarrow>
          calculateAttendancePercentage att = spec_percentage (present_or_late att) (length att))
    \<and> (exact_half (present_or_late att) (length att) \<longrightarrow>
          calculateAttendancePercentage att = spec_percentage (present_or_late att) (length att)
          \<or> calculateAttendancePercentage att = spec_percentage (present_or_late att) (length att) - 1)"
proof -
  have same: "attendancePercentage e = calculateAttendancePercentage (attendance e)"
    by (simp add: attendancePercentage_def calculateAttendancePercentage_def)
  have empty: "calculateAttendancePercentage [] = 0"
    by (simp add: calculateAttendancePercentage_def)
  have round: "(\<not> exact_half (present_or_late att) (length att) \<longrightarrow>
          calculateAttendancePercentage att = spec_percentage (present_or_late att) (length att))
    \<and> (exact_half (present_or_late att) (length att) \<longrightarrow>
          calculateAttendancePercentage att = spec_percentage (present_or_late att) (length att)
          \<or> calculateAttendancePercentage att = spec_percentage (present_or_late att) (length att) - 1)"
  proof (cases "att = []")
    case True
    then show ?thesis
      by (simp add: calculateAttendancePercentage_def spec_percentage_def)
  next
    case False
    have "(2::nat) ^ 32 \<le> 2 ^ 44" by simp
    with assms have "length att \<le> 2 ^ 44" by linarith
    with False js_percent_rounding [of "length att" "present_or_late att"] present_or_late_le [of att]
    show ?thesis by (simp add: calculateAttendancePercentage_js)
  qed
  from same empty round show ?thesis
    by (intro conjI impI) simp_all
qed

lemma js_percent_3_4: "js_percent 3 4 = 75"
  by code_simp

lemma js_percent_23_40: "js_percent 23 40 = 57"
  by code_simp

lemma scenarioC_counts: "present_or_late scenarioC_attendance = 3" "length scenarioC_attendance = 4"
  by (simp_all add: present_or_late_def scenarioC_attendance_def scenarioC_record_def)

lemma forty_days_counts: "present_or_late forty_days = 23" "length forty_days = 40"
  by (simp_all add: present_or_late_def forty_days_def scenarioC_record_def)

lemma scenario_lists_nonempty: "scenarioC_attendance \<noteq> []" "forty_days \<noteq> []"
  by (simp_all add: scenarioC_attendance_def forty_days_def)

theorem attendance_percentage_sites_witness:
  "length scenarioC_attendance < 2 ^ 32
   \<and> \<not> exact_half (present_or_late scenarioC_attendance) (length scenarioC_attendance)
   \<and> calculateAttendancePercentage scenarioC_attendance = 75
   \<and> spec_percentage (present_or_late scenarioC_attendance) (length scenarioC_attendance) = 75
   \<and> length forty_days < 2 ^ 32
   \<and> exact_half (present_or_late forty_days) (length forty_days)
   \<and> calculateAttendancePercentage forty_days = 57
   \<and> spec_percentage (present_or_late forty_days) (length forty_days) - 1 = 57"
proof -
  have l1: "length scenarioC_attendance < 2 ^ 32" and l2: "length forty_days < 2 ^ 32"
    by (simp_all add: scenarioC_counts forty_days_counts)
  have h1: "\<not> exact_half (present_or_late scenarioC_attendance) (length scenarioC_attendance)"
    and h2: "exact_half (present_or_late forty_days) (length forty_days)"
    by (simp_all add: scenarioC_counts forty_days_counts exact_half_def)
  have c1: "calculateAttendancePercentage scenarioC_attendance = 75"
    and c2: "calculateAttendancePercentage forty_days = 57"
    by (simp_all add: calculateAttendancePercentage_js scenarioC_counts forty_days_counts
          js_percent_3_4 js_percent_23_40 scenario_lists_nonempty)
  have s2: "spec_percentage (present_or_late forty_days) (length forty_days) = 58"
    by (simp add: forty_days_counts spec_percentage_def)
  from attendance_percentage_sites [OF l1] attendance_percentage_sites [OF l2] l1 l2 h1 h2 c1 c2 s2
  show ?thesis by simp
qed

text \<open>
  An attendance list where the two sites do not report the specified percentage: 23 days
  present out of 40 give 57 at both, where the specification gives 58.
\<close>

theorem attendance_percentage_not_uniform:
  "calculateAttendancePercentage forty_days = 57
   \<and> attendancePercentage (scenarioA_enrollment\<lparr>attendance := forty_days\<rparr>) = 57
   \<and> spec_percentage (present_or_late forty_days) (length forty_days) = 58"
proof -
  have c2: "calculateAttendancePercentage forty_days = 57"
    by (simp add: calculateAttendancePercentage_js forty_days_counts js_percent_23_40
          scenario_lists_nonempty)
  have "attendancePercentage (scenarioA_enrollment\<lparr>attendance := forty_days\<rparr>)
      = calculateAttendancePercentage forty_days"
    by (simp add: attendancePercentage_def calculateAttendancePercentage_def)
  with c2 have v: "attendancePercentage (scenarioA_enrollment\<lparr>attendance := forty_days\<rparr>) = 57"
    by simp
  have s2: "spec_percentage (present_or_late forty_days) (length forty_days) = 58"
    by (simp add: forty_days_counts spec_percentage_def)
  from c2 v s2 show ?thesis by (intro conjI)
qed

end
